theory Spec2Isabelle
  imports Main "HOL-Library.Word"
begin

unbundle bit_operations_syntax

section \<open>Data model\<close>

text \<open>
  The two-pass function disassembler of \<^verbatim>\<open>src/function.cpp\<close>. Addresses are
  \<^verbatim>\<open>uint64_t\<close>; \<^verbatim>\<open>ZyanUSize\<close> is taken to be 64 bits wide (a 64-bit build).
\<close>

type_synonym Address64T = "64 word"

text \<open>Failing Zyan/Zydis status codes; a result is \<open>Inl\<close> of one of them or \<open>Inr\<close> of a value.\<close>

datatype ZyanError =
    ZYAN_STATUS_FAILED
  | ZYAN_STATUS_INVALID_ARGUMENT
  | ZYAN_STATUS_INVALID_OPERATION
  | ZYAN_STATUS_INSUFFICIENT_BUFFER_SIZE
  | ZYDIS_STATUS_DECODING_ERROR

text \<open>\<^verbatim>\<open>Executable::Symbol\<close>: the fields \<^verbatim>\<open>name\<close> and \<^verbatim>\<open>value\<close> that the hooks read.\<close>

record Symbol =
  sym_name :: string
  sym_value :: Address64T

text \<open>
  The executable image, as far as \<^verbatim>\<open>function.cpp\<close> consumes it. Its implementation is not
  part of the sources at hand, so every query is a field. \<open>section_data name\<close> is the memory
  behind the pointer that \<^verbatim>\<open>section_data(name)\<close> returns, indexed by byte offset.
\<close>

record Executable =
  section_size :: "string \<Rightarrow> 64 word"
  section_address :: "string \<Rightarrow> Address64T"
  section_data :: "string \<Rightarrow> nat \<Rightarrow> 8 word"
  base_address :: Address64T
  end_address :: Address64T
  get_symbol :: "Address64T \<Rightarrow> Symbol"
  section_end_of :: "string \<Rightarrow> Address64T"

text \<open>\<^verbatim>\<open>unassemblize::Function\<close>: the members that \<^verbatim>\<open>disassemble\<close> and the hooks touch.\<close>

record Function =
  m_executable :: Executable
  m_section :: string
  m_startAddress :: Address64T
  m_endAddress :: Address64T
  m_labels :: "Address64T \<rightharpoonup> string"
  m_dissassembly :: string

text \<open>
  Modelled from the spec: the accessors \<^verbatim>\<open>Function::section_address()\<close> and
  \<^verbatim>\<open>Function::section_end()\<close> are declared in a header that is not available; the spec lists
  \<^verbatim>\<open>sectionAddress(name)\<close> and \<^verbatim>\<open>sectionEnd(name)\<close> as lookups of the image by section name.
\<close>

definition func_section_address :: "Function \<Rightarrow> Address64T" where
  "func_section_address func = section_address (m_executable func) (m_section func)"

definition func_section_end :: "Function \<Rightarrow> Address64T" where
  "func_section_end func = section_end_of (m_executable func) (m_section func)"

subsection \<open>The decoder and formatter library\<close>

datatype ZydisMachineMode =
    ZYDIS_MACHINE_MODE_LONG_64
  | ZYDIS_MACHINE_MODE_LONG_COMPAT_32
  | ZYDIS_MACHINE_MODE_LONG_COMPAT_16
  | ZYDIS_MACHINE_MODE_LEGACY_32
  | ZYDIS_MACHINE_MODE_LEGACY_16
  | ZYDIS_MACHINE_MODE_REAL_16

datatype ZydisStackWidth = ZYDIS_STACK_WIDTH_16 | ZYDIS_STACK_WIDTH_32 | ZYDIS_STACK_WIDTH_64

datatype ZydisMnemonic = ZYDIS_MNEMONIC_NOP | ZYDIS_MNEMONIC_JMP | ZYDIS_MNEMONIC_OTHER

text \<open>The operand fields the hooks read: \<^verbatim>\<open>imm.value.u\<close>, \<^verbatim>\<open>mem.disp.value\<close>, \<^verbatim>\<open>ptr.offset\<close>.\<close>

record ZydisDecodedOperand =
  imm_value_u :: "64 word"
  mem_disp_value :: "64 word"
  ptr_offset :: "32 word"

text \<open>
  \<^verbatim>\<open>ZydisDisassembledInstruction\<close>: \<^verbatim>\<open>info.length\<close>, \<^verbatim>\<open>info.mnemonic\<close>,
  \<^verbatim>\<open>info.raw.imm->is_relative\<close>, the operand array, \<^verbatim>\<open>runtime_address\<close> and \<^verbatim>\<open>text\<close>.
  \<open>info_opaque\<close> stands for everything else the library keeps in the instruction.
\<close>

record ZydisDisassembledInstruction =
  insn_runtime_address :: "64 word"
  info_length :: "8 word"
  info_mnemonic :: ZydisMnemonic
  raw_imm_is_relative :: bool
  operands :: "ZydisDecodedOperand list"
  info_opaque :: nat
  insn_text :: string

record ZydisFormatterContext =
  ctx_instruction :: ZydisDisassembledInstruction
  ctx_operand :: ZydisDecodedOperand
  ctx_runtime_address :: "64 word"

text \<open>
  The formatter buffer a hook is handed. The hooks only call \<^verbatim>\<open>ZydisFormatterBufferAppend\<close>
  and \<^verbatim>\<open>ZydisFormatterBufferGetString\<close> on it; the fields are the outcomes of these calls
  (\<open>None\<close> is success).
\<close>

record ZydisFormatterBuffer =
  ZydisFormatterBufferAppend :: "ZyanError option"
  ZydisFormatterBufferGetString :: "ZyanError option"

text \<open>A formatter callback returns a failing status or the text it appended to the buffer.\<close>

type_synonym ZydisFormatterFunc =
  "ZydisFormatterBuffer \<Rightarrow> ZydisFormatterContext \<Rightarrow> ZyanError + string"

record FormatterHooks =
  hook_print_address_abs :: ZydisFormatterFunc
  hook_print_imm :: ZydisFormatterFunc
  hook_print_address_rel :: ZydisFormatterFunc
  hook_print_disp :: ZydisFormatterFunc
  hook_format_operand_ptr :: ZydisFormatterFunc

text \<open>
  The library itself is external: its entry points are fields. \<open>ZydisDecode\<close> stands for
  \<^verbatim>\<open>ZydisDecoderInit\<close>, \<^verbatim>\<open>ZydisDecoderDecodeInstruction\<close> and \<^verbatim>\<open>ZydisDecoderDecodeOperands\<close>
  in sequence; its buffer argument is the memory behind the pointer and the length.
  \<open>ZydisFormatterFormatInstruction\<close> is the Intel-style formatter with the five hooks
  installed; the \<open>default_\<close> fields are the callbacks that \<^verbatim>\<open>ZydisFormatterSetHook\<close> hands back.
\<close>

record Zydis =
  ZydisDecode :: "ZydisMachineMode \<Rightarrow> ZydisStackWidth \<Rightarrow> (nat \<Rightarrow> 8 word) \<Rightarrow> nat
                   \<Rightarrow> ZyanError + ZydisDisassembledInstruction"
  ZydisCalcAbsoluteAddress :: "ZydisDisassembledInstruction \<Rightarrow> ZydisDecodedOperand \<Rightarrow> 64 word
                   \<Rightarrow> ZyanError + 64 word"
  ZydisFormatterFormatInstruction :: "FormatterHooks \<Rightarrow> ZydisDisassembledInstruction \<Rightarrow> 64 word
                   \<Rightarrow> ZyanError + string"
  default_print_address_absolute :: ZydisFormatterFunc
  default_print_address_relative :: ZydisFormatterFunc
  default_print_immediate :: ZydisFormatterFunc
  default_print_displacement :: ZydisFormatterFunc
  default_format_operand_ptr :: ZydisFormatterFunc

section \<open>Text helpers\<close>

definition hex_digit :: "nat \<Rightarrow> char" where
  "hex_digit d = ''0123456789abcdef'' ! d"

text \<open>Lower-case hexadecimal without leading zeros, as \<^verbatim>\<open>std::hex\<close> and \<^verbatim>\<open>%x\<close> print it.\<close>

fun to_hex :: "nat \<Rightarrow> string" where
  "to_hex n = (if n < 16 then [hex_digit n] else to_hex (n div 16) @ [hex_digit (n mod 16)])"

declare to_hex.simps [simp del]

text \<open>\<^verbatim>\<open>std::string("label_") + stream.str()\<close> after \<^verbatim>\<open>stream << std::hex << address\<close>.\<close>

definition label_name :: "Address64T \<Rightarrow> string" where
  "label_name address = ''label_'' @ to_hex (unat address)"

datatype fmt_arg = ArgStr string | ArgU64 "64 word"

text \<open>The macro \<^verbatim>\<open>PRIx64\<close> of \<^verbatim>\<open><inttypes.h>\<close>.\<close>

definition PRIx64 :: string where
  "PRIx64 = ''llx''"

text \<open>
  \<^verbatim>\<open>vsnprintf\<close> on the conversions the hooks use. \<^verbatim>\<open>%s\<close> takes a string. \<^verbatim>\<open>%x\<close> takes
  an \<^verbatim>\<open>unsigned int\<close>; the hooks pass it a \<^verbatim>\<open>uint64_t\<close>, of which the low 32 bits are
  printed. \<^verbatim>\<open>%llx\<close> prints all 64 bits. A format that ends inside a conversion, an unknown
  conversion or a missing argument makes the call fail (\<open>None\<close>, a negative return value).
\<close>

fun vsnprintf :: "string \<Rightarrow> fmt_arg list \<Rightarrow> string option" where
  "vsnprintf [] args = Some []"
| "vsnprintf (c # fs) args =
     (if c \<noteq> CHR ''%'' then map_option ((#) c) (vsnprintf fs args)
      else if take 1 fs = ''s'' then
        (case args of
           ArgStr s # rest \<Rightarrow> map_option ((@) s) (vsnprintf (drop 1 fs) rest)
         | _ \<Rightarrow> None)
      else if take 1 fs = ''x'' then
        (case args of
           ArgU64 a # rest \<Rightarrow>
             map_option ((@) (to_hex (unat (ucast a :: 32 word)))) (vsnprintf (drop 1 fs) rest)
         | _ \<Rightarrow> None)
      else if take 3 fs = ''llx'' then
        (case args of
           ArgU64 a # rest \<Rightarrow> map_option ((@) (to_hex (unat a))) (vsnprintf (drop 3 fs) rest)
         | _ \<Rightarrow> None)
      else None)"

text \<open>\<^verbatim>\<open>ZyanStringAppendFormat\<close>: fails when the formatting does, else appends the text.\<close>

definition ZyanStringAppendFormat :: "string \<Rightarrow> fmt_arg list \<Rightarrow> ZyanError + string" where
  "ZyanStringAppendFormat format args =
     (case vsnprintf format args of None \<Rightarrow> Inl ZYAN_STATUS_FAILED | Some t \<Rightarrow> Inr t)"

text \<open>\<^verbatim>\<open>ZYAN_CHECK(call)\<close> followed by the rest of the function.\<close>

definition ZYAN_CHECK :: "ZyanError option \<Rightarrow> (ZyanError + 'a) \<Rightarrow> ZyanError + 'a" where
  "ZYAN_CHECK status rest = (case status of Some e \<Rightarrow> Inl e | None \<Rightarrow> rest)"


section \<open>The operand-printing hooks\<close>

text \<open>
  Each hook is written out as in the source, which has five copies of the same chain:
  label table, own section, image, default callback. \<open>func\<close> is the \<^verbatim>\<open>user_data\<close> pointer.
\<close>

text \<open>Absolute address operands.\<close>

definition UnasmFormatterPrintAddressAbsolute ::
  "Zydis \<Rightarrow> Function \<Rightarrow> ZydisFormatterBuffer \<Rightarrow> ZydisFormatterContext \<Rightarrow> ZyanError + string" where
  "UnasmFormatterPrintAddressAbsolute zydis func buffer context =
     (case ZydisCalcAbsoluteAddress zydis (ctx_instruction context) (ctx_operand context)
             (ctx_runtime_address context) of
        Inl e \<Rightarrow> Inl e
      | Inr address \<Rightarrow>
        (case m_labels func address of
           Some label \<Rightarrow>
             ZYAN_CHECK (ZydisFormatterBufferAppend buffer)
               (ZYAN_CHECK (ZydisFormatterBufferGetString buffer)
                  (ZyanStringAppendFormat ''%s'' [ArgStr label]))
         | None \<Rightarrow>
             if address \<ge> func_section_address func \<and> address \<le> func_section_end func then
               ZYAN_CHECK (ZydisFormatterBufferAppend buffer)
                 (ZYAN_CHECK (ZydisFormatterBufferGetString buffer)
                    (let symbol = get_symbol (m_executable func) address in
                     if sym_name symbol \<noteq> [] \<and> sym_value symbol = address then
                       ZyanStringAppendFormat ''%s'' [ArgStr (sym_name symbol)]
                     else ZyanStringAppendFormat ''sub_%x'' [ArgU64 address]))
             else if address \<ge> base_address (m_executable func)
                   \<and> address \<le> end_address (m_executable func) then
               ZYAN_CHECK (ZydisFormatterBufferAppend buffer)
                 (ZYAN_CHECK (ZydisFormatterBufferGetString buffer)
                    (let symbol = get_symbol (m_executable func) address in
                     if sym_name symbol \<noteq> [] \<and> sym_value symbol = address then
                       ZyanStringAppendFormat ''%s'' [ArgStr (sym_name symbol)]
                     else ZyanStringAppendFormat ''off_%x'' [ArgU64 address]))
             else default_print_address_absolute zydis buffer context))"

text \<open>Relative address operands.\<close>

definition UnasmFormatterPrintAddressRelative ::
  "Zydis \<Rightarrow> Function \<Rightarrow> ZydisFormatterBuffer \<Rightarrow> ZydisFormatterContext \<Rightarrow> ZyanError + string" where
  "UnasmFormatterPrintAddressRelative zydis func buffer context =
     (case ZydisCalcAbsoluteAddress zydis (ctx_instruction context) (ctx_operand context)
             (ctx_runtime_address context) of
        Inl e \<Rightarrow> Inl e
      | Inr address \<Rightarrow>
        (case m_labels func address of
           Some label \<Rightarrow>
             ZYAN_CHECK (ZydisFormatterBufferAppend buffer)
               (ZYAN_CHECK (ZydisFormatterBufferGetString buffer)
                  (ZyanStringAppendFormat ''%s'' [ArgStr label]))
         | None \<Rightarrow>
             if address \<ge> func_section_address func \<and> address \<le> func_section_end func then
               ZYAN_CHECK (ZydisFormatterBufferAppend buffer)
                 (ZYAN_CHECK (ZydisFormatterBufferGetString buffer)
                    (let symbol = get_symbol (m_executable func) address in
                     if sym_name symbol \<noteq> [] \<and> sym_value symbol = address then
                       ZyanStringAppendFormat ''%s'' [ArgStr (sym_name symbol)]
                     else ZyanStringAppendFormat ''sub_%x'' [ArgU64 address]))
             else if address \<ge> base_address (m_executable func)
                   \<and> address \<le> end_address (m_executable func) then
               ZYAN_CHECK (ZydisFormatterBufferAppend buffer)
                 (ZYAN_CHECK (ZydisFormatterBufferGetString buffer)
                    (let symbol = get_symbol (m_executable func) address in
                     if sym_name symbol \<noteq> [] \<and> sym_value symbol = address then
                       ZyanStringAppendFormat ''%s'' [ArgStr (sym_name symbol)]
                     else ZyanStringAppendFormat ''off_%x'' [ArgU64 address]))
             else default_print_address_relative zydis buffer context))"

text \<open>Immediate operands: the address is \<^verbatim>\<open>imm.value.u\<close>.\<close>

definition UnasmFormatterPrintIMM ::
  "Zydis \<Rightarrow> Function \<Rightarrow> ZydisFormatterBuffer \<Rightarrow> ZydisFormatterContext \<Rightarrow> ZyanError + string" where
  "UnasmFormatterPrintIMM zydis func buffer context =
     (let address = imm_value_u (ctx_operand context) in
        (case m_labels func address of
           Some label \<Rightarrow>
             ZYAN_CHECK (ZydisFormatterBufferAppend buffer)
               (ZYAN_CHECK (ZydisFormatterBufferGetString buffer)
                  (ZyanStringAppendFormat ''%s'' [ArgStr label]))
         | None \<Rightarrow>
             if address \<ge> func_section_address func \<and> address \<le> func_section_end func then
               ZYAN_CHECK (ZydisFormatterBufferAppend buffer)
                 (ZYAN_CHECK (ZydisFormatterBufferGetString buffer)
                    (let symbol = get_symbol (m_executable func) address in
                     if sym_name symbol \<noteq> [] \<and> sym_value symbol = address then
                       ZyanStringAppendFormat ''%s'' [ArgStr (sym_name symbol)]
                     else ZyanStringAppendFormat ''sub_%x'' [ArgU64 address]))
             else if address \<ge> base_address (m_executable func)
                   \<and> address \<le> end_address (m_executable func) then
               ZYAN_CHECK (ZydisFormatterBufferAppend buffer)
                 (ZYAN_CHECK (ZydisFormatterBufferGetString buffer)
                    (let symbol = get_symbol (m_executable func) address in
                     if sym_name symbol \<noteq> [] \<and> sym_value symbol = address then
                       ZyanStringAppendFormat ''%s'' [ArgStr (sym_name symbol)]
                     else ZyanStringAppendFormat ''off_%x'' [ArgU64 address]))
             else default_print_immediate zydis buffer context))"

text \<open>
  Memory displacements: the address is \<^verbatim>\<open>mem.disp.value\<close>. The offset format of the
  own-section branch is \<^verbatim>\<open>"+%s+0x%"\<close>, that of the image branch is
  \<^verbatim>\<open>"+%s+0x%" PRIx64 ""\<close>.
\<close>

definition UnasmFormatterPrintDISP ::
  "Zydis \<Rightarrow> Function \<Rightarrow> ZydisFormatterBuffer \<Rightarrow> ZydisFormatterContext \<Rightarrow> ZyanError + string" where
  "UnasmFormatterPrintDISP zydis func buffer context =
     (let address = mem_disp_value (ctx_operand context) in
        (case m_labels func address of
           Some label \<Rightarrow>
             ZYAN_CHECK (ZydisFormatterBufferAppend buffer)
               (ZYAN_CHECK (ZydisFormatterBufferGetString buffer)
                  (ZyanStringAppendFormat ''+%s'' [ArgStr label]))
         | None \<Rightarrow>
             if address \<ge> func_section_address func \<and> address \<le> func_section_end func then
               ZYAN_CHECK (ZydisFormatterBufferAppend buffer)
                 (ZYAN_CHECK (ZydisFormatterBufferGetString buffer)
                    (let symbol = get_symbol (m_executable func) address in
                     if sym_name symbol \<noteq> [] then
                       if sym_value symbol = address then
                         ZyanStringAppendFormat ''+%s'' [ArgStr (sym_name symbol)]
                       else
                         (let diff = address - sym_value symbol in
                          ZyanStringAppendFormat ''+%s+0x%'' [ArgStr (sym_name symbol), ArgU64 diff])
                     else ZyanStringAppendFormat ''+sub_%x'' [ArgU64 address]))
             else if address \<ge> base_address (m_executable func)
                   \<and> address \<le> end_address (m_executable func) then
               ZYAN_CHECK (ZydisFormatterBufferAppend buffer)
                 (ZYAN_CHECK (ZydisFormatterBufferGetString buffer)
                    (let symbol = get_symbol (m_executable func) address in
                     if sym_name symbol \<noteq> [] then
                       if sym_value symbol = address then
                         ZyanStringAppendFormat ''+%s'' [ArgStr (sym_name symbol)]
                       else
                         (let diff = address - sym_value symbol in
                          ZyanStringAppendFormat (''+%s+0x%'' @ PRIx64 @ '''') [ArgStr (sym_name symbol), ArgU64 diff])
                     else ZyanStringAppendFormat ''+off_%x'' [ArgU64 address]))
             else default_print_displacement zydis buffer context))"

text \<open>Far pointers: the address is the 32-bit \<^verbatim>\<open>ptr.offset\<close>, widened.\<close>

definition UnasmFormatterFormatOperandPTR ::
  "Zydis \<Rightarrow> Function \<Rightarrow> ZydisFormatterBuffer \<Rightarrow> ZydisFormatterContext \<Rightarrow> ZyanError + string" where
  "UnasmFormatterFormatOperandPTR zydis func buffer context =
     (let address = (ucast (ptr_offset (ctx_operand context)) :: 64 word) in
        (case m_labels func address of
           Some label \<Rightarrow>
             ZYAN_CHECK (ZydisFormatterBufferAppend buffer)
               (ZYAN_CHECK (ZydisFormatterBufferGetString buffer)
                  (ZyanStringAppendFormat ''%s'' [ArgStr label]))
         | None \<Rightarrow>
             if address \<ge> func_section_address func \<and> address \<le> func_section_end func then
               ZYAN_CHECK (ZydisFormatterBufferAppend buffer)
                 (ZYAN_CHECK (ZydisFormatterBufferGetString buffer)
                    (let symbol = get_symbol (m_executable func) address in
                     if sym_name symbol \<noteq> [] \<and> sym_value symbol = address then
                       ZyanStringAppendFormat ''%s'' [ArgStr (sym_name symbol)]
                     else ZyanStringAppendFormat ''sub_%x'' [ArgU64 address]))
             else if address \<ge> base_address (m_executable func)
                   \<and> address \<le> end_address (m_executable func) then
               ZYAN_CHECK (ZydisFormatterBufferAppend buffer)
                 (ZYAN_CHECK (ZydisFormatterBufferGetString buffer)
                    (let symbol = get_symbol (m_executable func) address in
                     if sym_name symbol \<noteq> [] \<and> sym_value symbol = address then
                       ZyanStringAppendFormat ''%s'' [ArgStr (sym_name symbol)]
                     else ZyanStringAppendFormat ''unk_%x'' [ArgU64 address]))
             else default_format_operand_ptr zydis buffer context))"

text \<open>The hooks as \<^verbatim>\<open>UnasmDisassembleCustom\<close> installs them, bound to the function.\<close>

definition unasm_hooks :: "Zydis \<Rightarrow> Function \<Rightarrow> FormatterHooks" where
  "unasm_hooks zydis func =
     \<lparr> hook_print_address_abs = UnasmFormatterPrintAddressAbsolute zydis func,
       hook_print_imm = UnasmFormatterPrintIMM zydis func,
       hook_print_address_rel = UnasmFormatterPrintAddressRelative zydis func,
       hook_print_disp = UnasmFormatterPrintDISP zydis func,
       hook_format_operand_ptr = UnasmFormatterFormatOperandPTR zydis func \<rparr>"


section \<open>Decoding one instruction\<close>

text \<open>A pointer into the section data, advanced by a byte offset.\<close>

definition ptr_add :: "(nat \<Rightarrow> 8 word) \<Rightarrow> 64 word \<Rightarrow> (nat \<Rightarrow> 8 word)" where
  "ptr_add data off = (\<lambda>i. data (unat off + i))"

definition get_le32 :: "(nat \<Rightarrow> 8 word) \<Rightarrow> 32 word" where
  "get_le32 data =
     (push_bit 24 (ucast (data 3)) OR push_bit 16 (ucast (data 2))
        OR push_bit 8 (ucast (data 1)) OR ucast (data 0))"

text \<open>The \<^verbatim>\<open>switch\<close> that derives the stack width; every machine mode has a case.\<close>

fun stack_width_of :: "ZydisMachineMode \<Rightarrow> ZydisStackWidth" where
  "stack_width_of ZYDIS_MACHINE_MODE_LONG_64 = ZYDIS_STACK_WIDTH_64"
| "stack_width_of ZYDIS_MACHINE_MODE_LONG_COMPAT_32 = ZYDIS_STACK_WIDTH_32"
| "stack_width_of ZYDIS_MACHINE_MODE_LEGACY_32 = ZYDIS_STACK_WIDTH_32"
| "stack_width_of ZYDIS_MACHINE_MODE_LONG_COMPAT_16 = ZYDIS_STACK_WIDTH_16"
| "stack_width_of ZYDIS_MACHINE_MODE_LEGACY_16 = ZYDIS_STACK_WIDTH_16"
| "stack_width_of ZYDIS_MACHINE_MODE_REAL_16 = ZYDIS_STACK_WIDTH_16"

text \<open>
  Decoding without formatting. The buffer and the instruction are never null here, so the
  first check is left out; the instruction is zeroed and given its runtime address.
\<close>

definition UnasmDisassembleNoFormat ::
  "Zydis \<Rightarrow> ZydisMachineMode \<Rightarrow> 64 word \<Rightarrow> (nat \<Rightarrow> 8 word) \<Rightarrow> nat
     \<Rightarrow> ZyanError + ZydisDisassembledInstruction" where
  "UnasmDisassembleNoFormat zydis machine_mode runtime_address buffer len =
     (let stack_width = stack_width_of machine_mode in
      case ZydisDecode zydis machine_mode stack_width buffer len of
        Inl e \<Rightarrow> Inl e
      | Inr instruction \<Rightarrow>
          Inr (instruction\<lparr>insn_runtime_address := runtime_address, insn_text := []\<rparr>))"

text \<open>Decoding, then formatting with the five hooks installed; the text lands in the instruction.\<close>

definition UnasmDisassembleCustom ::
  "Zydis \<Rightarrow> ZydisMachineMode \<Rightarrow> 64 word \<Rightarrow> (nat \<Rightarrow> 8 word) \<Rightarrow> nat \<Rightarrow> Function
     \<Rightarrow> ZyanError + ZydisDisassembledInstruction" where
  "UnasmDisassembleCustom zydis machine_mode runtime_address buffer len user_data =
     (let stack_width = stack_width_of machine_mode in
      case ZydisDecode zydis machine_mode stack_width buffer len of
        Inl e \<Rightarrow> Inl e
      | Inr decoded \<Rightarrow>
          (let instruction = decoded\<lparr>insn_runtime_address := runtime_address, insn_text := []\<rparr> in
           case ZydisFormatterFormatInstruction zydis (unasm_hooks zydis user_data) instruction
                  runtime_address of
             Inl e \<Rightarrow> Inl e
           | Inr t \<Rightarrow> Inr (instruction\<lparr>insn_text := t\<rparr>)))"

section \<open>The label table\<close>

text \<open>
  The block \<^verbatim>\<open>stream << std::hex << address; m_labels[address] = "label_" + stream.str()\<close>.
\<close>

definition new_label :: "Function \<Rightarrow> Address64T \<Rightarrow> Function" where
  "new_label func address = func\<lparr>m_labels := (m_labels func)(address \<mapsto> label_name address)\<rparr>"

text \<open>
  The insertion as pass 1 does it at each of its three places: only when
  \<^verbatim>\<open>m_labels.find(address) == m_labels.end()\<close>.
\<close>

definition insert_label :: "Function \<Rightarrow> Address64T \<Rightarrow> Function" where
  "insert_label func address =
     (if m_labels func address = None then new_label func address else func)"

text \<open>
  \<^verbatim>\<open>std::map::operator[]\<close>, which pass 2 reads labels with: the mapped string, and the map
  with an empty string inserted when the key was absent.
\<close>

definition map_index :: "(Address64T \<rightharpoonup> string) \<Rightarrow> Address64T \<Rightarrow> string \<times> (Address64T \<rightharpoonup> string)" where
  "map_index m k = (case m k of Some v \<Rightarrow> (v, m) | None \<Rightarrow> ([], m(k \<mapsto> [])))"

text \<open>\<^verbatim>\<open>m_dissassembly += prefix; m_dissassembly += m_labels[address]; m_dissassembly += suffix\<close>.\<close>

definition append_label_line :: "Function \<Rightarrow> string \<Rightarrow> Address64T \<Rightarrow> string \<Rightarrow> Function" where
  "append_label_line func prefix address suffix =
     (let (label, labels') = map_index (m_labels func) address in
      func\<lparr>m_labels := labels', m_dissassembly := m_dissassembly func @ prefix @ label @ suffix\<rparr>)"

section \<open>The two passes\<close>

text \<open>
  The local variables of \<^verbatim>\<open>disassemble\<close>. \<open>address\<close> is declared without a value and only
  written when \<^verbatim>\<open>ZydisCalcAbsoluteAddress\<close> succeeds, so it is carried along with whatever it held.
\<close>

record Locals =
  offset :: "64 word"
  runtime_address :: "64 word"
  end_offset :: "64 word"
  address :: "64 word"

definition function_data :: "Function \<Rightarrow> nat \<Rightarrow> 8 word" where
  "function_data func = section_data (m_executable func) (m_section func)"

definition in_function :: "Function \<Rightarrow> 64 word \<Rightarrow> bool" where
  "in_function func a \<longleftrightarrow> a \<ge> m_startAddress func \<and> a \<le> m_endAddress func"

text \<open>
  \<^verbatim>\<open>get_le32(m_executable.section_data(m_section.c_str()) + offset)\<close>, widened to the
  \<^verbatim>\<open>uint64_t next_int\<close>.
\<close>

definition next_int_at :: "Function \<Rightarrow> 64 word \<Rightarrow> 64 word" where
  "next_int_at func off = ucast (get_le32 (ptr_add (function_data func) off))"

definition advance :: "Locals \<Rightarrow> 64 word \<Rightarrow> Locals" where
  "advance l n = l\<lparr>offset := offset l + n, runtime_address := runtime_address l + n\<rparr>"

abbreviation NL :: string where
  "NL \<equiv> [CHR 0x0A]"

text \<open>
  The inner loop of pass 1 (the naive jump table detection). Every loop takes fuel, the
  number of times its condition may be evaluated: nothing bounds the run of in-range words,
  nor the number of instructions when the decoder returns a zero length. \<open>None\<close> is running
  out of fuel.
\<close>

fun pass1_jump_table :: "nat \<Rightarrow> Function \<Rightarrow> Locals \<Rightarrow> 64 word \<Rightarrow> bool \<Rightarrow> (Function \<times> Locals) option" where
  "pass1_jump_table 0 func l next_int in_jump_table = None"
| "pass1_jump_table (Suc n) func l next_int in_jump_table =
     (if next_int \<ge> m_startAddress func \<and> next_int \<le> m_endAddress func then
        (let func1 =
               (if \<not> in_jump_table then
                  (if runtime_address l \<ge> m_startAddress func \<and> runtime_address l \<le> m_endAddress func
                   then insert_label func (runtime_address l) else func)
                else func);
             func2 = insert_label func1 next_int;
             l' = advance l 4;
             next_int' = next_int_at func (offset l')
         in pass1_jump_table n func2 l' next_int' True)
      else Some (func, l))"

text \<open>
  The block after the cursor has moved past the instruction: on a \<^verbatim>\<open>nop\<close> or \<^verbatim>\<open>jmp\<close> the
  next four bytes are read and the inner loop is entered with \<^verbatim>\<open>in_jump_table = false\<close>.
\<close>

definition pass1_detect ::
  "nat \<Rightarrow> ZydisDisassembledInstruction \<Rightarrow> Function \<Rightarrow> Locals \<Rightarrow> (Function \<times> Locals) option" where
  "pass1_detect n instruction func l =
     (if info_mnemonic instruction = ZYDIS_MNEMONIC_NOP
         \<or> info_mnemonic instruction = ZYDIS_MNEMONIC_JMP then
        (let next_int = next_int_at func (offset l)
         in pass1_jump_table n func l next_int False)
      else Some (func, l))"

text \<open>
  The body of the first loop, for a decoded instruction. \<^verbatim>\<open>instruction.operands\<close> is the
  operand array, zeroed before decoding; its first entry is passed on.
\<close>

definition pass1_body ::
  "nat \<Rightarrow> Zydis \<Rightarrow> ZydisDisassembledInstruction \<Rightarrow> Function \<Rightarrow> Locals \<Rightarrow> (Function \<times> Locals) option" where
  "pass1_body n zydis instruction func l =
     (let operand0 = (case operands instruction of
                        [] \<Rightarrow> \<lparr>imm_value_u = 0, mem_disp_value = 0, ptr_offset = 0\<rparr>
                      | op # _ \<Rightarrow> op);
          address' =
            (if raw_imm_is_relative instruction then
               (case ZydisCalcAbsoluteAddress zydis instruction operand0 (runtime_address l) of
                  Inl e \<Rightarrow> address l | Inr a \<Rightarrow> a)
             else address l);
          func1 =
            (if raw_imm_is_relative instruction then
               (if address' \<ge> m_startAddress func \<and> address' \<le> m_endAddress func
                then insert_label func address' else func)
             else func);
          l1 = (advance l (ucast (info_length instruction)))\<lparr>address := address'\<rparr>
      in pass1_detect n instruction func1 l1)"

text \<open>The first loop: it ends when decoding fails or the offset has passed the end offset.\<close>

fun pass1_loop :: "nat \<Rightarrow> Zydis \<Rightarrow> Function \<Rightarrow> Locals \<Rightarrow> (Function \<times> Locals) option" where
  "pass1_loop 0 zydis func l = None"
| "pass1_loop (Suc n) zydis func l =
     (case UnasmDisassembleNoFormat zydis ZYDIS_MACHINE_MODE_LEGACY_32 (runtime_address l)
             (ptr_add (function_data func) (offset l)) 96 of
        Inl e \<Rightarrow> Some (func, l)
      | Inr instruction \<Rightarrow>
          if offset l \<le> end_offset l then
            (case pass1_body n zydis instruction func l of
               None \<Rightarrow> None
             | Some (func', l') \<Rightarrow> pass1_loop n zydis func' l')
          else Some (func, l))"

text \<open>The inner loop of pass 2: one \<^verbatim>\<open>.int\<close> line for each slot whose value has a label.\<close>

fun pass2_jump_table :: "nat \<Rightarrow> Function \<Rightarrow> Locals \<Rightarrow> 64 word \<Rightarrow> bool \<Rightarrow> (Function \<times> Locals) option" where
  "pass2_jump_table 0 func l next_int in_jump_table = None"
| "pass2_jump_table (Suc n) func l next_int in_jump_table =
     (if next_int \<ge> m_startAddress func \<and> next_int \<le> m_endAddress func then
        (let func1 =
               (if \<not> in_jump_table then
                  (if m_labels func (runtime_address l) \<noteq> None
                   then append_label_line func [] (runtime_address l) ('':'' @ NL) else func)
                else func);
             func2 =
               (if m_labels func1 next_int \<noteq> None
                then append_label_line func1 ''    .int '' next_int NL else func1);
             l' = advance l 4;
             next_int' = next_int_at func (offset l')
         in pass2_jump_table n func2 l' next_int' True)
      else Some (func, l))"

text \<open>The same block in the second loop.\<close>

definition pass2_detect ::
  "nat \<Rightarrow> ZydisDisassembledInstruction \<Rightarrow> Function \<Rightarrow> Locals \<Rightarrow> (Function \<times> Locals) option" where
  "pass2_detect n instruction func l =
     (if info_mnemonic instruction = ZYDIS_MNEMONIC_NOP
         \<or> info_mnemonic instruction = ZYDIS_MNEMONIC_JMP then
        (let next_int = next_int_at func (offset l)
         in pass2_jump_table n func l next_int False)
      else Some (func, l))"

text \<open>The body of the second loop, for a decoded and formatted instruction.\<close>

definition pass2_body ::
  "nat \<Rightarrow> ZydisDisassembledInstruction \<Rightarrow> Function \<Rightarrow> Locals \<Rightarrow> (Function \<times> Locals) option" where
  "pass2_body n instruction func l =
     (let func1 =
            (if m_labels func (runtime_address l) \<noteq> None
             then append_label_line func [] (runtime_address l) ('':'' @ NL) else func);
          func2 = func1\<lparr>m_dissassembly :=
                    m_dissassembly func1 @ ''    '' @ insn_text instruction @ NL\<rparr>;
          l1 = advance l (ucast (info_length instruction))
      in pass2_detect n instruction func2 l1)"

text \<open>The second loop; the function itself is the \<^verbatim>\<open>user_data\<close> of the hooks.\<close>

fun pass2_loop :: "nat \<Rightarrow> Zydis \<Rightarrow> Function \<Rightarrow> Locals \<Rightarrow> (Function \<times> Locals) option" where
  "pass2_loop 0 zydis func l = None"
| "pass2_loop (Suc n) zydis func l =
     (case UnasmDisassembleCustom zydis ZYDIS_MACHINE_MODE_LEGACY_32 (runtime_address l)
             (ptr_add (function_data func) (offset l)) 96 func of
        Inl e \<Rightarrow> Some (func, l)
      | Inr instruction \<Rightarrow>
          if offset l \<le> end_offset l then
            (case pass2_body n instruction func l of
               None \<Rightarrow> None
             | Some (func', l') \<Rightarrow> pass2_loop n zydis func' l')
          else Some (func, l))"

text \<open>
  \<^verbatim>\<open>Function::disassemble()\<close>. \<open>address0\<close> is what the uninitialised local \<^verbatim>\<open>address\<close>
  holds on entry. The file-level \<^verbatim>\<open>static bool in_jump_table\<close> is only ever reset; both inner
  loops use a local of the same name, so it is left out.
\<close>

definition disassemble :: "nat \<Rightarrow> Zydis \<Rightarrow> Function \<Rightarrow> 64 word \<Rightarrow> Function option" where
  "disassemble n zydis func address0 =
     (if section_size (m_executable func) (m_section func) = 0 then Some func
      else
        (let l0 = \<lparr> offset = m_startAddress func - section_address (m_executable func) (m_section func),
                    runtime_address = m_startAddress func,
                    end_offset = m_endAddress func - section_address (m_executable func) (m_section func),
                    address = address0 \<rparr>
         in case pass1_loop n zydis func l0 of
              None \<Rightarrow> None
            | Some (func1, l1) \<Rightarrow>
                (let l2 = l1\<lparr>offset := m_startAddress func1 - section_address (m_executable func1) (m_section func1),
                             runtime_address := m_startAddress func1\<rparr>
                 in case pass2_loop n zydis func1 l2 of
                      None \<Rightarrow> None
                    | Some (func2, l3) \<Rightarrow> Some func2)))"

section \<open>The resolution order in the words of the specification\<close>

text \<open>
  The classification of an address as the specification words it, first match wins: a key
  of the function's label table is \<open>Local\<close>; else an address within
  \<^verbatim>\<open>[sectionAddress, sectionEnd]\<close> of the function's own section is a \<open>SectionSymbol\<close>; else an
  address within \<^verbatim>\<open>[imageBase, imageEnd]\<close> is an \<open>ImageSymbol\<close>; anything else is \<open>Unresolved\<close>.
\<close>

datatype resolution = Local | SectionSymbol | ImageSymbol | Unresolved

definition spec_classify :: "Function \<Rightarrow> Address64T \<Rightarrow> resolution" where
  "spec_classify func a =
     (if a \<in> dom (m_labels func) then Local
      else if func_section_address func \<le> a \<and> a \<le> func_section_end func then SectionSymbol
      else if base_address (m_executable func) \<le> a \<and> a \<le> end_address (m_executable func)
        then ImageSymbol
      else Unresolved)"

text \<open>
  The choice among four outcomes that goes with it: what a label name gives, what the own
  section gives, what the image gives, what the default rendering gives.
\<close>

definition first_match :: "Function \<Rightarrow> Address64T \<Rightarrow> (string \<Rightarrow> 'a) \<Rightarrow> 'a \<Rightarrow> 'a \<Rightarrow> 'a \<Rightarrow> 'a" where
  "first_match func a on_label in_section in_image unresolved =
     (case spec_classify func a of
        Local \<Rightarrow> on_label (the (m_labels func a))
      | SectionSymbol \<Rightarrow> in_section
      | ImageSymbol \<Rightarrow> in_image
      | Unresolved \<Rightarrow> unresolved)"

text \<open>
  The name of the symbol that the lookup finds exactly at the address, else a synthesized
  name.
\<close>

definition exact_symbol_or :: "Function \<Rightarrow> Address64T \<Rightarrow> string \<Rightarrow> string" where
  "exact_symbol_or func a synthesized =
     (let s = get_symbol (m_executable func) a
      in if sym_name s \<noteq> [] \<and> sym_value s = a then sym_name s else synthesized)"

section \<open>Vocabulary of the statements\<close>

text \<open>
  \<open>labels_added_in_range f f'\<close>: \<open>f'\<close> is \<open>f\<close> with a larger label table, and every key
  that is new lies within the function's address range.
\<close>

definition labels_added_in_range :: "Function \<Rightarrow> Function \<Rightarrow> bool" where
  "labels_added_in_range f f' \<longleftrightarrow>
     (\<exists>M. f' = f\<lparr>m_labels := M\<rparr> \<and> dom (m_labels f) \<subseteq> dom M
          \<and> (\<forall>a \<in> dom M. a \<in> dom (m_labels f) \<or> in_function f a))"

text \<open>
  The disassembly text as lines: a label line \<^verbatim>\<open>name:\<close>, an indented instruction, or an
  indented \<^verbatim>\<open>.int name\<close> directive, each closed by a line break.
\<close>

datatype line = LabelLine string | InsnLine string | IntLine string

fun render :: "line \<Rightarrow> string" where
  "render (LabelLine name) = name @ '':'' @ NL"
| "render (InsnLine t) = ''    '' @ t @ NL"
| "render (IntLine name) = ''    .int '' @ name @ NL"

fun instruction_lines :: "line list \<Rightarrow> string list" where
  "instruction_lines [] = []"
| "instruction_lines (InsnLine t # ls) = t # instruction_lines ls"
| "instruction_lines (_ # ls) = instruction_lines ls"

text \<open>The label names that the label lines and the \<^verbatim>\<open>.int\<close> lines carry.\<close>

fun label_names :: "line list \<Rightarrow> string list" where
  "label_names [] = []"
| "label_names (InsnLine t # ls) = label_names ls"
| "label_names (LabelLine name # ls) = name # label_names ls"
| "label_names (IntLine name # ls) = name # label_names ls"

definition render_all :: "line list \<Rightarrow> string" where
  "render_all ls = concat (map render ls)"


section \<open>A stand-in library and sample images\<close>

text \<open>
  To run the model on concrete bytes, a small stand-in for the library: it decodes
  \<^verbatim>\<open>nop\<close> (90), \<^verbatim>\<open>ret\<close> (C3), \<^verbatim>\<open>jmp rel8\<close> (EB), \<^verbatim>\<open>jz rel8\<close> (74), \<^verbatim>\<open>jmp eax\<close> (FF E0) and
  \<^verbatim>\<open>mov eax, [ebx+disp32]\<close> (8B 83), and rejects everything else. Relative targets are
  truncated to 32 bits, as in the 32-bit machine mode. The formatter prints the mnemonic
  and sends a relative operand through the relative-address hook and a displacement
  through the displacement hook.
\<close>

definition stub_insn :: "8 word \<Rightarrow> ZydisMnemonic \<Rightarrow> bool \<Rightarrow> 64 word \<Rightarrow> nat \<Rightarrow> ZydisDisassembledInstruction" where
  "stub_insn len mn rel imm opc =
     \<lparr> insn_runtime_address = 0, info_length = len, info_mnemonic = mn,
       raw_imm_is_relative = rel,
       operands = [\<lparr>imm_value_u = imm, mem_disp_value = 0, ptr_offset = 0\<rparr>],
       info_opaque = opc, insn_text = [] \<rparr>"

definition stub_mem_insn :: "64 word \<Rightarrow> ZydisDisassembledInstruction" where
  "stub_mem_insn disp =
     \<lparr> insn_runtime_address = 0, info_length = 6, info_mnemonic = ZYDIS_MNEMONIC_OTHER,
       raw_imm_is_relative = False,
       operands = [\<lparr>imm_value_u = 0, mem_disp_value = disp, ptr_offset = 0\<rparr>],
       info_opaque = 0x8B, insn_text = [] \<rparr>"

definition stub_decode ::
  "ZydisMachineMode \<Rightarrow> ZydisStackWidth \<Rightarrow> (nat \<Rightarrow> 8 word) \<Rightarrow> nat
     \<Rightarrow> ZyanError + ZydisDisassembledInstruction" where
  "stub_decode machine_mode stack_width buffer len =
     (if buffer 0 = 0x90 then Inr (stub_insn 1 ZYDIS_MNEMONIC_NOP False 0 0x90)
      else if buffer 0 = 0xC3 then Inr (stub_insn 1 ZYDIS_MNEMONIC_OTHER False 0 0xC3)
      else if buffer 0 = 0xEB then
        Inr (stub_insn 2 ZYDIS_MNEMONIC_JMP True (scast (buffer 1)) 0xEB)
      else if buffer 0 = 0x74 then
        Inr (stub_insn 2 ZYDIS_MNEMONIC_OTHER True (scast (buffer 1)) 0x74)
      else if buffer 0 = 0xFF \<and> buffer 1 = 0xE0 then
        Inr (stub_insn 2 ZYDIS_MNEMONIC_JMP False 0 0xFF)
      else if buffer 0 = 0x8B \<and> buffer 1 = 0x83 then
        Inr (stub_mem_insn (ucast (get_le32 (\<lambda>i. buffer (i + 2)))))
      else Inl ZYDIS_STATUS_DECODING_ERROR)"

definition stub_calc ::
  "ZydisDisassembledInstruction \<Rightarrow> ZydisDecodedOperand \<Rightarrow> 64 word \<Rightarrow> ZyanError + 64 word" where
  "stub_calc instruction operand rt =
     (if raw_imm_is_relative instruction then
        Inr ((rt + ucast (info_length instruction) + imm_value_u operand)
               AND 0xFFFFFFFF)
      else Inl ZYAN_STATUS_INVALID_ARGUMENT)"

definition stub_buffer :: ZydisFormatterBuffer where
  "stub_buffer = \<lparr> ZydisFormatterBufferAppend = None, ZydisFormatterBufferGetString = None \<rparr>"

definition stub_format ::
  "FormatterHooks \<Rightarrow> ZydisDisassembledInstruction \<Rightarrow> 64 word \<Rightarrow> ZyanError + string" where
  "stub_format hooks instruction rt =
     (let context = \<lparr> ctx_instruction = instruction,
                       ctx_operand = hd (operands instruction),
                       ctx_runtime_address = rt \<rparr>
      in if info_opaque instruction = 0x90 then Inr ''nop''
         else if info_opaque instruction = 0xC3 then Inr ''ret''
         else if info_opaque instruction = 0xFF then Inr ''jmp eax''
         else if info_opaque instruction = 0xEB then
           (case hook_print_address_rel hooks stub_buffer context of
              Inl e \<Rightarrow> Inl e | Inr t \<Rightarrow> Inr (''jmp '' @ t))
         else if info_opaque instruction = 0x74 then
           (case hook_print_address_rel hooks stub_buffer context of
              Inl e \<Rightarrow> Inl e | Inr t \<Rightarrow> Inr (''jz '' @ t))
         else if info_opaque instruction = 0x8B then
           (case hook_print_disp hooks stub_buffer context of
              Inl e \<Rightarrow> Inl e | Inr t \<Rightarrow> Inr (''mov eax, [ebx'' @ t @ '']''))
         else Inl ZYAN_STATUS_INVALID_ARGUMENT)"

definition stub_default :: ZydisFormatterFunc where
  "stub_default buffer context = Inr ''0x?''"

definition stub_zydis :: Zydis where
  "stub_zydis =
     \<lparr> ZydisDecode = stub_decode,
       ZydisCalcAbsoluteAddress = stub_calc,
       ZydisFormatterFormatInstruction = stub_format,
       default_print_address_absolute = stub_default,
       default_print_address_relative = stub_default,
       default_print_immediate = stub_default,
       default_print_displacement = stub_default,
       default_format_operand_ptr = stub_default \<rparr>"

text \<open>
  An image with one section \<^verbatim>\<open>.text\<close> at \<^verbatim>\<open>0x1000\<close> holding the given bytes (zeros behind
  them), inside an image that spans \<^verbatim>\<open>0x1000\<close> to \<^verbatim>\<open>0x8fff\<close>, with the given symbols.
\<close>

definition sample_symbol :: "(Address64T \<times> Symbol) list \<Rightarrow> Address64T \<Rightarrow> Symbol" where
  "sample_symbol table a =
     (case map_of table a of Some s \<Rightarrow> s | None \<Rightarrow> \<lparr>sym_name = [], sym_value = 0\<rparr>)"

definition sample_image :: "8 word list \<Rightarrow> (Address64T \<times> Symbol) list \<Rightarrow> Executable" where
  "sample_image bytes table =
     \<lparr> section_size = (\<lambda>name. of_nat (length bytes)),
       section_address = (\<lambda>name. 0x1000),
       section_data = (\<lambda>name i. if i < length bytes then bytes ! i else 0),
       base_address = 0x1000,
       end_address = 0x8fff,
       get_symbol = sample_symbol table,
       section_end_of = (\<lambda>name. 0x1000 + of_nat (length bytes)) \<rparr>"

definition sample_function :: "Executable \<Rightarrow> Address64T \<Rightarrow> (Address64T \<rightharpoonup> string) \<Rightarrow> Function" where
  "sample_function exe end_addr labels =
     \<lparr> m_executable = exe, m_section = ''.text'', m_startAddress = 0x1000,
       m_endAddress = end_addr, m_labels = labels, m_dissassembly = [] \<rparr>"

text \<open>
  \<^verbatim>\<open>jmp eax\<close> at \<^verbatim>\<open>0x1000\<close>, then the words \<^verbatim>\<open>0x1012\<close>, \<^verbatim>\<open>0x1013\<close>, \<^verbatim>\<open>0x1014\<close>
  and \<^verbatim>\<open>0x2000\<close>, then \<^verbatim>\<open>nop; nop; ret\<close> at \<^verbatim>\<open>0x1012\<close>.
\<close>

definition table_bytes :: "8 word list" where
  "table_bytes = [0xFF, 0xE0, 0x12, 0x10, 0, 0, 0x13, 0x10, 0, 0, 0x14, 0x10, 0, 0,
                  0x00, 0x20, 0, 0, 0x90, 0x90, 0xC3]"

definition table_function :: Function where
  "table_function = sample_function (sample_image table_bytes []) 0x1014 Map.empty"

text \<open>The same with the first table entry repeated: two slots share the target \<^verbatim>\<open>0x1012\<close>.\<close>

definition shared_bytes :: "8 word list" where
  "shared_bytes = [0xFF, 0xE0, 0x12, 0x10, 0, 0, 0x12, 0x10, 0, 0, 0x14, 0x10, 0, 0,
                   0x00, 0x20, 0, 0, 0x90, 0x90, 0xC3]"

definition shared_function :: Function where
  "shared_function = sample_function (sample_image shared_bytes []) 0x1014 Map.empty"

text \<open>
  \<^verbatim>\<open>jz 0x1004\<close> at \<^verbatim>\<open>0x1000\<close>, three times \<^verbatim>\<open>ret\<close>, and the byte \<^verbatim>\<open>06\<close> at \<^verbatim>\<open>0x1005\<close>,
  which the stand-in decoder rejects.
\<close>

definition branch_bytes :: "8 word list" where
  "branch_bytes = [0x74, 0x02, 0xC3, 0xC3, 0xC3, 0x06, 0xC3, 0xC3]"

definition branch_function :: Function where
  "branch_function = sample_function (sample_image branch_bytes []) 0x1007 Map.empty"

text \<open>
  A function with a label at \<^verbatim>\<open>0x1008\<close>, where the image also has the symbol \<^verbatim>\<open>sym\<close>, and
  an operand context whose relative target, displacement and immediate all lead there.
\<close>

definition priority_context :: ZydisFormatterContext where
  "priority_context =
     \<lparr> ctx_instruction = stub_insn 2 ZYDIS_MNEMONIC_JMP True 6 0xEB,
       ctx_operand = \<lparr>imm_value_u = 6, mem_disp_value = 0x1008, ptr_offset = 0x5000\<rparr>,
       ctx_runtime_address = 0x1000 \<rparr>"

definition priority_function :: Function where
  "priority_function =
     sample_function (sample_image branch_bytes [(0x1008, \<lparr>sym_name = ''sym'', sym_value = 0x1008\<rparr>),
          (0x1009, \<lparr>sym_name = ''func'', sym_value = 0x1000\<rparr>)])
       0x1007 [0x1008 \<mapsto> ''label_1008'']"

text \<open>A far pointer to \<^verbatim>\<open>0x5000\<close>, inside the image and outside the section.\<close>

definition far_context :: ZydisFormatterContext where
  "far_context =
     \<lparr> ctx_instruction = stub_insn 7 ZYDIS_MNEMONIC_JMP False 0 0xEA,
       ctx_operand = \<lparr>imm_value_u = 0, mem_disp_value = 0, ptr_offset = 0x5000\<rparr>,
       ctx_runtime_address = 0x1000 \<rparr>"

text \<open>
  Displacement operands, and an image whose symbol lookup answers \<^verbatim>\<open>0x1006\<close> with the
  symbol \<^verbatim>\<open>func\<close> at \<^verbatim>\<open>0x1000\<close> and \<^verbatim>\<open>0x5008\<close> with the symbol \<^verbatim>\<open>data\<close> at \<^verbatim>\<open>0x5000\<close>.
\<close>

definition disp_context :: "64 word \<Rightarrow> ZydisFormatterContext" where
  "disp_context d =
     \<lparr> ctx_instruction = stub_insn 6 ZYDIS_MNEMONIC_OTHER False 0 0x8B,
       ctx_operand = \<lparr>imm_value_u = 0, mem_disp_value = d, ptr_offset = 0\<rparr>,
       ctx_runtime_address = 0x1000 \<rparr>"

definition disp_function :: Function where
  "disp_function =
     sample_function (sample_image branch_bytes
        [(0x1006, \<lparr>sym_name = ''func'', sym_value = 0x1000\<rparr>),
         (0x5008, \<lparr>sym_name = ''data'', sym_value = 0x5000\<rparr>)])
       0x1007 Map.empty"

text \<open>The run of the sample with the branch: cursors, the labelled function, the result.\<close>

definition branch_l0 :: Locals where
  "branch_l0 = \<lparr> offset = 0, runtime_address = 0x1000, end_offset = 7, address = 0 \<rparr>"

definition branch_l1 :: Locals where
  "branch_l1 = \<lparr> offset = 5, runtime_address = 0x1005, end_offset = 7, address = 0x1004 \<rparr>"

definition branch_l2 :: Locals where
  "branch_l2 = \<lparr> offset = 0, runtime_address = 0x1000, end_offset = 7, address = 0x1004 \<rparr>"

definition branch_labelled :: Function where
  "branch_labelled = branch_function\<lparr>m_labels := [0x1004 \<mapsto> ''label_1004'']\<rparr>"

definition branch_result :: Function where
  "branch_result = branch_labelled\<lparr>m_dissassembly :=
     ''    jz label_1004\<newline>    ret\<newline>    ret\<newline>label_1004:\<newline>    ret\<newline>''\<rparr>"

definition branch_insns :: "ZydisDisassembledInstruction list" where
  "branch_insns =
     [(stub_insn 2 ZYDIS_MNEMONIC_OTHER True 2 0x74)\<lparr>insn_runtime_address := 0x1000, insn_text := ''jz label_1004''\<rparr>,
      (stub_insn 1 ZYDIS_MNEMONIC_OTHER False 0 0xC3)\<lparr>insn_runtime_address := 0x1002, insn_text := ''ret''\<rparr>,
      (stub_insn 1 ZYDIS_MNEMONIC_OTHER False 0 0xC3)\<lparr>insn_runtime_address := 0x1003, insn_text := ''ret''\<rparr>,
      (stub_insn 1 ZYDIS_MNEMONIC_OTHER False 0 0xC3)\<lparr>insn_runtime_address := 0x1004, insn_text := ''ret''\<rparr>]"

text \<open>The same function after a second run: the five lines twice.\<close>

definition branch_twice :: Function where
  "branch_twice = branch_labelled\<lparr>m_dissassembly :=
     ''    jz label_1004\<newline>    ret\<newline>    ret\<newline>label_1004:\<newline>    ret\<newline>''
     @ ''    jz label_1004\<newline>    ret\<newline>    ret\<newline>label_1004:\<newline>    ret\<newline>''\<rparr>"






text \<open>The runs of the two samples with a table.\<close>

definition table_jmp :: ZydisDisassembledInstruction where
  "table_jmp = (stub_insn 2 ZYDIS_MNEMONIC_JMP False 0 0xFF)\<lparr>insn_runtime_address := 0x1000\<rparr>"

definition table_l :: Locals where
  "table_l = \<lparr> offset = 2, runtime_address = 0x1002, end_offset = 0x14, address = 0 \<rparr>"

definition table_labels :: "Address64T \<rightharpoonup> string" where
  "table_labels = [0x1002 \<mapsto> ''label_1002'', 0x1012 \<mapsto> ''label_1012'',
                   0x1013 \<mapsto> ''label_1013'', 0x1014 \<mapsto> ''label_1014'']"

definition table_result :: Function where
  "table_result = table_function\<lparr>m_labels := table_labels,
     m_dissassembly := ''    jmp eax\<newline>label_1002:\<newline>    .int label_1012\<newline>    .int label_1013\<newline>    .int label_1014\<newline>''\<rparr>"

definition shared_result :: Function where
  "shared_result = shared_function\<lparr>m_labels := [0x1002 \<mapsto> ''label_1002'', 0x1012 \<mapsto> ''label_1012'',
                   0x1014 \<mapsto> ''label_1014''],
     m_dissassembly := ''    jmp eax\<newline>label_1002:\<newline>    .int label_1012\<newline>    .int label_1012\<newline>    .int label_1014\<newline>''\<rparr>"

section \<open>Formatting facts\<close>

lemma vsnprintf_s [simp]: "vsnprintf ''%s'' [ArgStr s] = Some s"
  by simp

lemma vsnprintf_plus_s [simp]: "vsnprintf ''+%s'' [ArgStr s] = Some (''+'' @ s)"
  by simp

lemma vsnprintf_sub [simp]:
  "vsnprintf ''sub_%x'' [ArgU64 a] = Some (''sub_'' @ to_hex (unat (ucast a :: 32 word)))"
  by simp

lemma vsnprintf_off [simp]:
  "vsnprintf ''off_%x'' [ArgU64 a] = Some (''off_'' @ to_hex (unat (ucast a :: 32 word)))"
  by simp

lemma vsnprintf_unk [simp]:
  "vsnprintf ''unk_%x'' [ArgU64 a] = Some (''unk_'' @ to_hex (unat (ucast a :: 32 word)))"
  by simp

lemma vsnprintf_plus_sub [simp]:
  "vsnprintf ''+sub_%x'' [ArgU64 a] = Some (''+sub_'' @ to_hex (unat (ucast a :: 32 word)))"
  by simp

lemma vsnprintf_plus_off [simp]:
  "vsnprintf ''+off_%x'' [ArgU64 a] = Some (''+off_'' @ to_hex (unat (ucast a :: 32 word)))"
  by simp

lemma vsnprintf_offset_image [simp]:
  "vsnprintf (''+%s+0x%'' @ PRIx64 @ '''') [ArgStr s, ArgU64 d] = Some (''+'' @ s @ ''+0x'' @ to_hex (unat d))"
  by (simp add: PRIx64_def)

lemma vsnprintf_offset_section [simp]:
  "vsnprintf ''+%s+0x%'' [ArgStr s, ArgU64 d] = None"
  by simp

lemma unat_ucast_32: "unat (ucast (a :: 64 word) :: 32 word) = unat a mod 2 ^ 32"
  by (simp add: unsigned_ucast_eq take_bit_eq_mod)

lemma ZYAN_CHECK_None [simp]: "ZYAN_CHECK None r = r"
  by (simp add: ZYAN_CHECK_def)

lemma stub_buffer_simps [simp]:
  "ZydisFormatterBufferAppend stub_buffer = None" "ZydisFormatterBufferGetString stub_buffer = None"
  by (simp_all add: stub_buffer_def)

section \<open>Resolution order of the hooks\<close>

lemma first_match_cases:
  "first_match func a on_label in_section in_image unresolved =
     (case m_labels func a of
        Some label \<Rightarrow> on_label label
      | None \<Rightarrow>
          if func_section_address func \<le> a \<and> a \<le> func_section_end func then in_section
          else if base_address (m_executable func) \<le> a \<and> a \<le> end_address (m_executable func)
            then in_image
          else unresolved)"
  by (auto simp add: first_match_def spec_classify_def split: option.splits)

lemma abs_hook_four_way:
  assumes "ZydisFormatterBufferAppend buffer = None" "ZydisFormatterBufferGetString buffer = None"
  shows "UnasmFormatterPrintAddressAbsolute zydis func buffer context
           = (case ZydisCalcAbsoluteAddress zydis (ctx_instruction context) (ctx_operand context)
                     (ctx_runtime_address context) of
                Inl e \<Rightarrow> Inl e
              | Inr a \<Rightarrow>
                  first_match func a Inr
                    (Inr (exact_symbol_or func a (''sub_'' @ to_hex (unat a mod 2 ^ 32))))
                    (Inr (exact_symbol_or func a (''off_'' @ to_hex (unat a mod 2 ^ 32))))
                    (default_print_address_absolute zydis buffer context))"
  using assms
  by (auto simp add: UnasmFormatterPrintAddressAbsolute_def first_match_cases exact_symbol_or_def
      ZyanStringAppendFormat_def Let_def unat_ucast_32 split: option.split sum.split)

lemma rel_hook_four_way:
  assumes "ZydisFormatterBufferAppend buffer = None" "ZydisFormatterBufferGetString buffer = None"
  shows "UnasmFormatterPrintAddressRelative zydis func buffer context
           = (case ZydisCalcAbsoluteAddress zydis (ctx_instruction context) (ctx_operand context)
                     (ctx_runtime_address context) of
                Inl e \<Rightarrow> Inl e
              | Inr a \<Rightarrow>
                  first_match func a Inr
                    (Inr (exact_symbol_or func a (''sub_'' @ to_hex (unat a mod 2 ^ 32))))
                    (Inr (exact_symbol_or func a (''off_'' @ to_hex (unat a mod 2 ^ 32))))
                    (default_print_address_relative zydis buffer context))"
  using assms
  by (auto simp add: UnasmFormatterPrintAddressRelative_def first_match_cases exact_symbol_or_def
      ZyanStringAppendFormat_def Let_def unat_ucast_32 split: option.split sum.split)

lemma imm_hook_four_way:
  assumes "ZydisFormatterBufferAppend buffer = None" "ZydisFormatterBufferGetString buffer = None"
    and "a = imm_value_u (ctx_operand context)"
  shows "UnasmFormatterPrintIMM zydis func buffer context
           = first_match func a Inr
               (Inr (exact_symbol_or func a (''sub_'' @ to_hex (unat a mod 2 ^ 32))))
               (Inr (exact_symbol_or func a (''off_'' @ to_hex (unat a mod 2 ^ 32))))
               (default_print_immediate zydis buffer context)"
  using assms
  by (auto simp add: UnasmFormatterPrintIMM_def first_match_cases exact_symbol_or_def
      ZyanStringAppendFormat_def Let_def unat_ucast_32 split: option.split)

lemma disp_hook_four_way:
  assumes "ZydisFormatterBufferAppend buffer = None" "ZydisFormatterBufferGetString buffer = None"
    and "a = mem_disp_value (ctx_operand context)" and "s = get_symbol (m_executable func) a"
  shows "UnasmFormatterPrintDISP zydis func buffer context
           = first_match func a (\<lambda>label. Inr (''+'' @ label))
               (if sym_name s = [] then Inr (''+sub_'' @ to_hex (unat a mod 2 ^ 32))
                else if sym_value s = a then Inr (''+'' @ sym_name s)
                else ZyanStringAppendFormat ''+%s+0x%''
                       [ArgStr (sym_name s), ArgU64 (a - sym_value s)])
               (if sym_name s = [] then Inr (''+off_'' @ to_hex (unat a mod 2 ^ 32))
                else if sym_value s = a then Inr (''+'' @ sym_name s)
                else Inr (''+'' @ sym_name s @ ''+0x'' @ to_hex (unat (a - sym_value s))))
               (default_print_displacement zydis buffer context)"
  using assms
  by (auto simp add: UnasmFormatterPrintDISP_def first_match_cases
      ZyanStringAppendFormat_def Let_def unat_ucast_32 PRIx64_def split: option.split)

lemma unat_ptr_address:
  fixes p :: "32 word"
  shows "unat (ucast p :: 64 word) mod 4294967296 = unat (ucast p :: 64 word)"
proof -
  have "unat p < 2 ^ 32" using unsigned_less [of p, where 'a = nat] by simp
  moreover from this have "unat (ucast p :: 64 word) = unat p"
    by (simp add: unsigned_ucast_eq take_bit_nat_eq_self)
  ultimately show ?thesis by simp
qed

lemma ptr_hook_four_way:
  assumes "ZydisFormatterBufferAppend buffer = None" "ZydisFormatterBufferGetString buffer = None"
    and "a = ucast (ptr_offset (ctx_operand context))"
  shows "UnasmFormatterFormatOperandPTR zydis func buffer context
           = first_match func a Inr
               (Inr (exact_symbol_or func a (''sub_'' @ to_hex (unat a))))
               (Inr (exact_symbol_or func a (''unk_'' @ to_hex (unat a))))
               (default_format_operand_ptr zydis buffer context)"
  using assms
  by (auto simp add: UnasmFormatterFormatOperandPTR_def first_match_cases exact_symbol_or_def
      ZyanStringAppendFormat_def Let_def unat_ucast_32 unat_ptr_address split: option.split)

text \<open>
  C1. With the buffer calls succeeding, each of the five hooks returns the four-way
  resolution of its address, first match wins: the label name for a key of the label table
  (behind a \<^verbatim>\<open>+\<close> for displacements), the own-section text for an address in the function's
  section, the image text for another address in the image, and the result of the default
  callback for every other address. For a displacement in the own section whose symbol lies
  elsewhere, the text is what the formatting call with the format \<^verbatim>\<open>"+%s+0x%"\<close> gives. The absolute and relative hooks resolve the address
  that \<^verbatim>\<open>ZydisCalcAbsoluteAddress\<close> computes and pass its failure on. The synthesized names
  carry the hexadecimal digits that \<^verbatim>\<open>%x\<close> prints, those of the low 32 bits. In particular
  an address that is a key of the label table is rendered as the label name, whatever
  symbol the image has there.
\<close>

theorem resolution_priority_order:
  assumes "ZydisFormatterBufferAppend buffer = None"
    and "ZydisFormatterBufferGetString buffer = None"
    and "imm = imm_value_u (ctx_operand context)"
    and "disp = mem_disp_value (ctx_operand context)"
    and "ptr = ucast (ptr_offset (ctx_operand context))"
    and "s = get_symbol (m_executable func) disp"
    and "calc = ZydisCalcAbsoluteAddress zydis (ctx_instruction context) (ctx_operand context)
                  (ctx_runtime_address context)"
  shows "UnasmFormatterPrintAddressAbsolute zydis func buffer context
           = (case calc of
                Inl e \<Rightarrow> Inl e
              | Inr a \<Rightarrow>
                  first_match func a Inr
                    (Inr (exact_symbol_or func a (''sub_'' @ to_hex (unat a mod 2 ^ 32))))
                    (Inr (exact_symbol_or func a (''off_'' @ to_hex (unat a mod 2 ^ 32))))
                    (default_print_address_absolute zydis buffer context))
       \<and> UnasmFormatterPrintAddressRelative zydis func buffer context
           = (case calc of
                Inl e \<Rightarrow> Inl e
              | Inr a \<Rightarrow>
                  first_match func a Inr
                    (Inr (exact_symbol_or func a (''sub_'' @ to_hex (unat a mod 2 ^ 32))))
                    (Inr (exact_symbol_or func a (''off_'' @ to_hex (unat a mod 2 ^ 32))))
                    (default_print_address_relative zydis buffer context))
       \<and> UnasmFormatterPrintIMM zydis func buffer context
           = first_match func imm Inr
               (Inr (exact_symbol_or func imm (''sub_'' @ to_hex (unat imm mod 2 ^ 32))))
               (Inr (exact_symbol_or func imm (''off_'' @ to_hex (unat imm mod 2 ^ 32))))
               (default_print_immediate zydis buffer context)
       \<and> UnasmFormatterPrintDISP zydis func buffer context
           = first_match func disp (\<lambda>label. Inr (''+'' @ label))
               (if sym_name s = [] then Inr (''+sub_'' @ to_hex (unat disp mod 2 ^ 32))
                else if sym_value s = disp then Inr (''+'' @ sym_name s)
                else ZyanStringAppendFormat ''+%s+0x%''
                       [ArgStr (sym_name s), ArgU64 (disp - sym_value s)])
               (if sym_name s = [] then Inr (''+off_'' @ to_hex (unat disp mod 2 ^ 32))
                else if sym_value s = disp then Inr (''+'' @ sym_name s)
                else Inr (''+'' @ sym_name s @ ''+0x'' @ to_hex (unat (disp - sym_value s))))
               (default_print_displacement zydis buffer context)
       \<and> UnasmFormatterFormatOperandPTR zydis func buffer context
           = first_match func ptr Inr
               (Inr (exact_symbol_or func ptr (''sub_'' @ to_hex (unat ptr))))
               (Inr (exact_symbol_or func ptr (''unk_'' @ to_hex (unat ptr))))
               (default_format_operand_ptr zydis buffer context)
       \<and> (\<forall>a label. calc = Inr a \<and> m_labels func a = Some label \<longrightarrow>
             UnasmFormatterPrintAddressAbsolute zydis func buffer context = Inr label
           \<and> UnasmFormatterPrintAddressRelative zydis func buffer context = Inr label)
       \<and> (\<forall>label. m_labels func imm = Some label \<longrightarrow>
             UnasmFormatterPrintIMM zydis func buffer context = Inr label)
       \<and> (\<forall>label. m_labels func disp = Some label \<longrightarrow>
             UnasmFormatterPrintDISP zydis func buffer context = Inr (''+'' @ label))
       \<and> (\<forall>label. m_labels func ptr = Some label \<longrightarrow>
             UnasmFormatterFormatOperandPTR zydis func buffer context = Inr label)"
proof -
  note four =
    abs_hook_four_way [OF assms(1,2), of zydis func "context", folded assms(7)]
    rel_hook_four_way [OF assms(1,2), of zydis func "context", folded assms(7)]
    imm_hook_four_way [OF assms(1-3), of zydis func]
    disp_hook_four_way [OF assms(1,2,4,6), of zydis]
    ptr_hook_four_way [OF assms(1,2,5), of zydis func]
  have labelled: "first_match func a on_label x y z = on_label label"
    if "m_labels func a = Some label" for a label x y z and on_label :: "string \<Rightarrow> ZyanError + string"
    using that by (simp add: first_match_cases)
  show ?thesis
    unfolding four by (auto simp add: labelled)
qed

lemma priority_calc:
  "ZydisCalcAbsoluteAddress stub_zydis (ctx_instruction priority_context)
     (ctx_operand priority_context) (ctx_runtime_address priority_context) = Inr 0x1008"
  by (simp add: stub_zydis_def stub_calc_def priority_context_def stub_insn_def)

lemma priority_function_simps:
  "m_labels priority_function = [0x1008 \<mapsto> ''label_1008'']"
  "get_symbol (m_executable priority_function) = sample_symbol [(0x1008, \<lparr>sym_name = ''sym'', sym_value = 0x1008\<rparr>),
          (0x1009, \<lparr>sym_name = ''func'', sym_value = 0x1000\<rparr>)]"
  "func_section_address priority_function = 0x1000"
  "func_section_end priority_function = 0x1008"
  "base_address (m_executable priority_function) = 0x1000"
  "end_address (m_executable priority_function) = 0x8fff"
  by (simp_all add: priority_function_def sample_function_def sample_image_def branch_bytes_def
      func_section_address_def func_section_end_def)

text \<open>
  C1 on the sample: the relative target and the displacement are \<^verbatim>\<open>0x1008\<close>, a label where
  the image has the symbol \<^verbatim>\<open>sym\<close>; the far pointer \<^verbatim>\<open>0x5000\<close> is in the image; the immediate
  \<^verbatim>\<open>6\<close> is outside it; with the immediate \<^verbatim>\<open>0x1004\<close> the address is in the own section.
\<close>

theorem resolution_priority_order_witness:
  "sym_value (get_symbol (m_executable priority_function) 0x1008) = 0x1008
   \<and> sym_name (get_symbol (m_executable priority_function) 0x1008) = ''sym''
   \<and> spec_classify priority_function 0x1008 = Local
   \<and> UnasmFormatterPrintAddressAbsolute stub_zydis priority_function stub_buffer priority_context
        = Inr ''label_1008''
   \<and> UnasmFormatterPrintAddressRelative stub_zydis priority_function stub_buffer priority_context
        = Inr ''label_1008''
   \<and> UnasmFormatterPrintDISP stub_zydis priority_function stub_buffer priority_context
        = Inr ''+label_1008''
   \<and> spec_classify priority_function 0x5000 = ImageSymbol
   \<and> UnasmFormatterFormatOperandPTR stub_zydis priority_function stub_buffer priority_context
        = Inr ''unk_5000''
   \<and> spec_classify priority_function 6 = Unresolved
   \<and> UnasmFormatterPrintIMM stub_zydis priority_function stub_buffer priority_context
        = default_print_immediate stub_zydis stub_buffer priority_context
   \<and> spec_classify priority_function 0x1004 = SectionSymbol
   \<and> UnasmFormatterPrintIMM stub_zydis priority_function stub_buffer
        (priority_context\<lparr>ctx_operand := \<lparr>imm_value_u = 0x1004, mem_disp_value = 0, ptr_offset = 0\<rparr>\<rparr>)
        = Inr ''sub_1004''"
proof -
  note a = resolution_priority_order [OF stub_buffer_simps refl refl refl refl refl,
      of stub_zydis priority_function priority_context]
  note b = resolution_priority_order [OF stub_buffer_simps refl refl refl refl refl,
      of stub_zydis priority_function
        "priority_context\<lparr>ctx_operand := \<lparr>imm_value_u = 0x1004, mem_disp_value = 0, ptr_offset = 0\<rparr>\<rparr>"]
  have c: "spec_classify priority_function 0x1008 = Local"
    "spec_classify priority_function 0x5000 = ImageSymbol"
    "spec_classify priority_function 6 = Unresolved"
    "spec_classify priority_function 0x1004 = SectionSymbol"
    by (simp_all add: spec_classify_def priority_function_simps)
  have ops: "imm_value_u (ctx_operand priority_context) = 6"
    "mem_disp_value (ctx_operand priority_context) = 0x1008"
    "(ucast (ptr_offset (ctx_operand priority_context)) :: 64 word) = 0x5000"
    by (simp_all add: priority_context_def)
  from a have "UnasmFormatterPrintAddressAbsolute stub_zydis priority_function stub_buffer priority_context
        = Inr ''label_1008''"
    and "UnasmFormatterPrintAddressRelative stub_zydis priority_function stub_buffer priority_context
        = Inr ''label_1008''"
    and "UnasmFormatterPrintDISP stub_zydis priority_function stub_buffer priority_context
        = Inr ''+label_1008''"
    and "UnasmFormatterFormatOperandPTR stub_zydis priority_function stub_buffer priority_context
        = Inr ''unk_5000''"
    and "UnasmFormatterPrintIMM stub_zydis priority_function stub_buffer priority_context
        = default_print_immediate stub_zydis stub_buffer priority_context"
    by (simp_all add: priority_calc ops first_match_def c exact_symbol_or_def
        priority_function_simps sample_symbol_def to_hex.simps hex_digit_def)
  moreover from b have "UnasmFormatterPrintIMM stub_zydis priority_function stub_buffer
        (priority_context\<lparr>ctx_operand := \<lparr>imm_value_u = 0x1004, mem_disp_value = 0, ptr_offset = 0\<rparr>\<rparr>)
        = Inr ''sub_1004''"
    by (simp add: first_match_def c exact_symbol_or_def
        priority_function_simps sample_symbol_def to_hex.simps hex_digit_def)
  ultimately show ?thesis
    using c by (simp add: priority_function_simps sample_symbol_def)
qed

section \<open>Far pointers\<close>

text \<open>
  C5, as stated, fails: for the far pointer \<^verbatim>\<open>0x5000\<close>, within the image, outside the
  section, without label or symbol, the hook emits \<^verbatim>\<open>unk_5000\<close>, not \<^verbatim>\<open>off_5000\<close>.
\<close>

theorem far_pointer_off_counterexample:
  "m_labels branch_function (ucast (ptr_offset (ctx_operand far_context))) = None
   \<and> (ucast (ptr_offset (ctx_operand far_context)) :: 64 word) = 0x5000
   \<and> base_address (m_executable branch_function) \<le> 0x5000
   \<and> 0x5000 \<le> end_address (m_executable branch_function)
   \<and> \<not> (func_section_address branch_function \<le> 0x5000 \<and> 0x5000 \<le> func_section_end branch_function)
   \<and> sym_name (get_symbol (m_executable branch_function) 0x5000) = []
   \<and> UnasmFormatterFormatOperandPTR stub_zydis branch_function stub_buffer far_context = Inr ''unk_5000''
   \<and> UnasmFormatterFormatOperandPTR stub_zydis branch_function stub_buffer far_context
        \<noteq> Inr (''off_'' @ to_hex (unat (0x5000 :: 64 word)))"
  by (simp add: UnasmFormatterFormatOperandPTR_def branch_function_def sample_function_def
      sample_image_def sample_symbol_def far_context_def branch_bytes_def
      func_section_address_def func_section_end_def ZyanStringAppendFormat_def
      to_hex.simps hex_digit_def)

text \<open>
  C5, amended. The far-pointer hook applies the same four-way resolution as the other
  hooks: label, then own section, then image, then the default callback. Its image text
  differs: a far-pointer operand whose address is no key of the label table, lies within
  the image and outside the function's own section, and has no exact symbol, is rendered
  as \<^verbatim>\<open>unk_\<close> followed by the address in hexadecimal.
\<close>

theorem far_pointer_unk:
  assumes "ZydisFormatterBufferAppend buffer = None"
    and "ZydisFormatterBufferGetString buffer = None"
    and "a = ucast (ptr_offset (ctx_operand context))"
  shows "UnasmFormatterFormatOperandPTR zydis func buffer context
           = first_match func a Inr
               (Inr (exact_symbol_or func a (''sub_'' @ to_hex (unat a))))
               (Inr (exact_symbol_or func a (''unk_'' @ to_hex (unat a))))
               (default_format_operand_ptr zydis buffer context)
       \<and> (spec_classify func a = ImageSymbol
            \<and> \<not> (sym_name (get_symbol (m_executable func) a) \<noteq> []
                   \<and> sym_value (get_symbol (m_executable func) a) = a) \<longrightarrow>
           UnasmFormatterFormatOperandPTR zydis func buffer context
             = Inr (''unk_'' @ to_hex (unat a)))"
  unfolding ptr_hook_four_way [OF assms]
  by (auto simp add: first_match_def exact_symbol_or_def)

text \<open>
  C5, amended, on the samples: the far pointer \<^verbatim>\<open>0x5000\<close> in the image, and the far pointer
  \<^verbatim>\<open>0x1008\<close> where the function has a label.
\<close>

theorem far_pointer_unk_witness:
  "spec_classify branch_function 0x5000 = ImageSymbol
   \<and> sym_name (get_symbol (m_executable branch_function) 0x5000) = []
   \<and> UnasmFormatterFormatOperandPTR stub_zydis branch_function stub_buffer far_context = Inr ''unk_5000''
   \<and> spec_classify priority_function 0x1008 = Local
   \<and> UnasmFormatterFormatOperandPTR stub_zydis priority_function stub_buffer
        (far_context\<lparr>ctx_operand := \<lparr>imm_value_u = 0, mem_disp_value = 0, ptr_offset = 0x1008\<rparr>\<rparr>)
        = Inr ''label_1008''"
proof -
  have ops: "(ucast (ptr_offset (ctx_operand far_context)) :: 64 word) = 0x5000"
    by (simp add: far_context_def)
  note a = far_pointer_unk [OF stub_buffer_simps ops [symmetric], of stub_zydis branch_function]
  note b = far_pointer_unk [OF stub_buffer_simps refl, of stub_zydis priority_function
      "far_context\<lparr>ctx_operand := \<lparr>imm_value_u = 0, mem_disp_value = 0, ptr_offset = 0x1008\<rparr>\<rparr>"]
  have sel: "m_labels branch_function = Map.empty"
    "func_section_address branch_function = 0x1000" "func_section_end branch_function = 0x1008"
    "base_address (m_executable branch_function) = 0x1000"
    "end_address (m_executable branch_function) = 0x8fff"
    "get_symbol (m_executable branch_function) = sample_symbol []"
    by (simp_all add: branch_function_def sample_function_def sample_image_def branch_bytes_def
        func_section_address_def func_section_end_def)
  have c: "spec_classify branch_function 0x5000 = ImageSymbol"
    "spec_classify priority_function 0x1008 = Local"
    by (simp_all add: spec_classify_def sel priority_function_simps)
  have s: "sym_name (get_symbol (m_executable branch_function) 0x5000) = []"
    by (simp add: sel sample_symbol_def)
  from a c(1) s have "UnasmFormatterFormatOperandPTR stub_zydis branch_function stub_buffer far_context
      = Inr ''unk_5000''"
    by (simp add: first_match_def exact_symbol_or_def sel sample_symbol_def
        to_hex.simps hex_digit_def)
  moreover from b have "UnasmFormatterFormatOperandPTR stub_zydis priority_function stub_buffer
        (far_context\<lparr>ctx_operand := \<lparr>imm_value_u = 0, mem_disp_value = 0, ptr_offset = 0x1008\<rparr>\<rparr>)
        = Inr ''label_1008''"
    by (simp add: first_match_def c priority_function_simps)
  ultimately show ?thesis using c s by simp
qed

section \<open>Displacements with an offset from a symbol\<close>

lemma disp_function_simps:
  "m_labels disp_function = Map.empty"
  "get_symbol (m_executable disp_function) = sample_symbol [(0x1006, \<lparr>sym_name = ''func'', sym_value = 0x1000\<rparr>),
         (0x5008, \<lparr>sym_name = ''data'', sym_value = 0x5000\<rparr>)]"
  "func_section_address disp_function = 0x1000"
  "func_section_end disp_function = 0x1008"
  "base_address (m_executable disp_function) = 0x1000"
  "end_address (m_executable disp_function) = 0x8fff"
  by (simp_all add: disp_function_def sample_function_def sample_image_def branch_bytes_def
      func_section_address_def func_section_end_def)

text \<open>
  C4. In the own-section branch the offset format is \<^verbatim>\<open>"+%s+0x%"\<close>: it ends inside a
  conversion. For the displacement \<^verbatim>\<open>0x1006\<close>, which has no label and for which the lookup
  returns the symbol \<^verbatim>\<open>func\<close> at \<^verbatim>\<open>0x1000\<close>, the hook fails instead of rendering
  \<^verbatim>\<open>+func+0x6\<close>.
\<close>

theorem displacement_offset_own_section_fails:
  "m_labels disp_function 0x1006 = None
   \<and> get_symbol (m_executable disp_function) 0x1006 = \<lparr>sym_name = ''func'', sym_value = 0x1000\<rparr>
   \<and> func_section_address disp_function \<le> 0x1006 \<and> 0x1006 \<le> func_section_end disp_function
   \<and> UnasmFormatterPrintDISP stub_zydis disp_function stub_buffer (disp_context 0x1006)
        = Inl ZYAN_STATUS_FAILED
   \<and> UnasmFormatterPrintDISP stub_zydis disp_function stub_buffer (disp_context 0x1006)
        \<noteq> Inr (''+'' @ ''func'' @ ''+0x'' @ to_hex (unat (0x1006 - 0x1000 :: 64 word)))"
  by (simp add: UnasmFormatterPrintDISP_def disp_function_simps disp_context_def
      sample_symbol_def ZyanStringAppendFormat_def)

text \<open>
  The image branch has the complete format: there the text is \<^verbatim>\<open>+name+0x\<close> and the
  difference in hexadecimal, and the difference does not wrap.
\<close>

lemma displacement_offset_image:
  assumes "ZydisFormatterBufferAppend buffer = None"
    and "ZydisFormatterBufferGetString buffer = None"
    and "x = mem_disp_value (ctx_operand context)"
    and "m_labels func x = None"
    and "\<not> (func_section_address func \<le> x \<and> x \<le> func_section_end func)"
    and "base_address (m_executable func) \<le> x" and "x \<le> end_address (m_executable func)"
    and "get_symbol (m_executable func) x = s" and "sym_name s \<noteq> []" and "sym_value s < x"
  shows "UnasmFormatterPrintDISP zydis func buffer context
           = Inr (''+'' @ sym_name s @ ''+0x'' @ to_hex (unat (x - sym_value s)))
         \<and> unat (x - sym_value s) = unat x - unat (sym_value s)"
  using assms
  by (auto simp add: UnasmFormatterPrintDISP_def ZyanStringAppendFormat_def Let_def PRIx64_def
      unat_sub word_less_def word_le_def)

lemma displacement_offset_image_example:
  "UnasmFormatterPrintDISP stub_zydis disp_function stub_buffer (disp_context 0x5008) = Inr ''+data+0x8''"
  using displacement_offset_image [of stub_buffer "0x5008" "disp_context 0x5008" disp_function
      "\<lparr>sym_name = ''data'', sym_value = 0x5000\<rparr>" stub_zydis]
  by (simp add: disp_function_simps disp_context_def sample_symbol_def to_hex.simps hex_digit_def)

section \<open>Insertion into the label table\<close>

text \<open>
  C9. Inserting a label at an address twice is the same as inserting it once, and
  inserting at an address that has a label changes nothing; the table is a map, so it has
  one name for each of its keys.
\<close>

theorem insert_label_idempotent:
  "insert_label (insert_label func a) a = insert_label func a
   \<and> (\<forall>name. m_labels func a = Some name \<longrightarrow> insert_label func a = func)
   \<and> (m_labels func a = None \<longrightarrow>
        dom (m_labels (insert_label func a)) = insert a (dom (m_labels func))
        \<and> m_labels (insert_label func a) a = Some (label_name a))
   \<and> dom (m_labels (insert_label (insert_label func a) a)) = insert a (dom (m_labels func))"
  by (auto simp add: insert_label_def new_label_def)

theorem insert_label_idempotent_witness:
  "m_labels (insert_label (insert_label branch_function 0x1004) 0x1004) = [0x1004 \<mapsto> ''label_1004'']
   \<and> insert_label (insert_label branch_function 0x1004) 0x1004 = insert_label branch_function 0x1004
   \<and> card (dom (m_labels (insert_label (insert_label branch_function 0x1004) 0x1004))) = 1"
  using insert_label_idempotent [of branch_function "0x1004"]
  by (simp add: insert_label_def new_label_def branch_function_def sample_function_def
      label_name_def to_hex.simps hex_digit_def)

section \<open>Zero-size sections\<close>

text \<open>
  C7. When the section the function lives in has size zero, \<open>disassemble\<close> returns at once,
  for any fuel: the function object, with its label table and its text, is unchanged.
\<close>

theorem disassemble_zero_size_noop:
  assumes "section_size (m_executable func) (m_section func) = 0"
  shows "disassemble n zydis func address0 = Some func"
  using assms by (simp add: disassemble_def)

theorem disassemble_zero_size_noop_witness:
  "section_size (m_executable (sample_function (sample_image [] []) 0x1000 [0x1000 \<mapsto> ''entry''])) ''.text'' = 0
   \<and> disassemble 0 stub_zydis (sample_function (sample_image [] []) 0x1000 [0x1000 \<mapsto> ''entry'']) 0
       = Some (sample_function (sample_image [] []) 0x1000 [0x1000 \<mapsto> ''entry''])"
  using disassemble_zero_size_noop
    [of "sample_function (sample_image [] []) 0x1000 [0x1000 \<mapsto> ''entry'']" 0 stub_zydis 0]
  by (simp add: sample_function_def sample_image_def)

section \<open>Pass 1 only adds labels within the function\<close>

lemma insert_label_frame [simp]:
  "m_startAddress (insert_label f a) = m_startAddress f"
  "m_endAddress (insert_label f a) = m_endAddress f"
  "m_executable (insert_label f a) = m_executable f"
  "m_section (insert_label f a) = m_section f"
  "m_dissassembly (insert_label f a) = m_dissassembly f"
  by (simp_all add: insert_label_def new_label_def)

lemma insert_label_dom [simp]:
  "dom (m_labels (insert_label f a)) = insert a (dom (m_labels f))"
  by (auto simp add: insert_label_def new_label_def)

lemma insert_label_present: "a \<in> dom (m_labels f) \<Longrightarrow> insert_label f a = f"
  by (auto simp add: insert_label_def)

lemma in_function_frame [simp]:
  "in_function (f\<lparr>m_labels := M\<rparr>) = in_function f"
  "in_function (f\<lparr>m_dissassembly := d\<rparr>) = in_function f"
  "in_function (insert_label f a) = in_function f"
  by (simp_all add: in_function_def fun_eq_iff)

lemma function_data_frame [simp]:
  "function_data (f\<lparr>m_labels := M\<rparr>) = function_data f"
  "function_data (f\<lparr>m_dissassembly := d\<rparr>) = function_data f"
  "function_data (insert_label f a) = function_data f"
  by (simp_all add: function_data_def)

lemma next_int_at_frame [simp]:
  "next_int_at (f\<lparr>m_labels := M\<rparr>) = next_int_at f"
  "next_int_at (f\<lparr>m_dissassembly := d\<rparr>) = next_int_at f"
  "next_int_at (insert_label f a) = next_int_at f"
  by (simp_all add: next_int_at_def fun_eq_iff)

lemma added_refl: "labels_added_in_range f f"
  unfolding labels_added_in_range_def by (rule exI [of _ "m_labels f"]) simp

lemma added_trans:
  assumes "labels_added_in_range f g" and "labels_added_in_range g h"
  shows "labels_added_in_range f h"
proof -
  from assms(1) obtain M where M: "g = f\<lparr>m_labels := M\<rparr>" "dom (m_labels f) \<subseteq> dom M"
    "\<forall>a \<in> dom M. a \<in> dom (m_labels f) \<or> in_function f a"
    unfolding labels_added_in_range_def by blast
  from assms(2) obtain N where N: "h = g\<lparr>m_labels := N\<rparr>" "dom (m_labels g) \<subseteq> dom N"
    "\<forall>a \<in> dom N. a \<in> dom (m_labels g) \<or> in_function g a"
    unfolding labels_added_in_range_def by blast
  have "h = f\<lparr>m_labels := N\<rparr>" using M(1) N(1) by simp
  moreover have "dom (m_labels f) \<subseteq> dom N" using M N(2) by auto
  moreover have "\<forall>a \<in> dom N. a \<in> dom (m_labels f) \<or> in_function f a"
  proof
    fix a assume "a \<in> dom N"
    with N(3) have "a \<in> dom (m_labels g) \<or> in_function g a" by blast
    then have "a \<in> dom M \<or> in_function f a" using M(1) by simp
    with M(3) show "a \<in> dom (m_labels f) \<or> in_function f a" by blast
  qed
  ultimately show ?thesis unfolding labels_added_in_range_def by blast
qed

lemma added_insert:
  assumes "in_function f a"
  shows "labels_added_in_range f (insert_label f a)"
  unfolding labels_added_in_range_def
  by (rule exI [of _ "m_labels (insert_label f a)"])
    (use assms in \<open>auto simp add: insert_label_def new_label_def\<close>)

lemma added_in_function: "labels_added_in_range f g \<Longrightarrow> in_function g = in_function f"
  unfolding labels_added_in_range_def by auto

lemma added_bounds:
  "labels_added_in_range f g \<Longrightarrow> m_startAddress g = m_startAddress f \<and> m_endAddress g = m_endAddress f"
  unfolding labels_added_in_range_def by auto

lemma pass1_jump_table_added:
  "pass1_jump_table n f l ni jt = Some (f', l') \<Longrightarrow> labels_added_in_range f f'"
proof (induction n arbitrary: f l ni jt)
  case 0
  then show ?case by simp
next
  case (Suc n)
  show ?case
  proof (cases "ni \<ge> m_startAddress f \<and> ni \<le> m_endAddress f")
    case False
    with Suc.prems show ?thesis by (auto simp add: added_refl)
  next
    case True
    define f1 where "f1 = (if \<not> jt then
                  (if runtime_address l \<ge> m_startAddress f \<and> runtime_address l \<le> m_endAddress f
                   then insert_label f (runtime_address l) else f)
                else f)"
    define f2 where "f2 = insert_label f1 ni"
    have f1: "labels_added_in_range f f1"
      unfolding f1_def by (simp add: added_refl added_insert in_function_def)
    have "in_function f1 ni"
      using True added_in_function [OF f1] by (simp add: in_function_def)
    then have f2: "labels_added_in_range f1 f2"
      unfolding f2_def by (rule added_insert)
    from Suc.prems True
    have run: "pass1_jump_table n f2 (advance l 4) (next_int_at f (offset (advance l 4))) True = Some (f', l')"
      by (simp add: Let_def f1_def f2_def)
    from Suc.IH [OF run] f1 f2 show ?thesis
      by (blast intro: added_trans)
  qed
qed

lemma pass1_detect_added:
  "pass1_detect n i f l = Some (f', l') \<Longrightarrow> labels_added_in_range f f'"
  by (auto simp add: pass1_detect_def Let_def added_refl split: if_splits
      dest: pass1_jump_table_added)

lemma pass1_body_added:
  assumes "pass1_body n z i f l = Some (f', l')"
  shows "labels_added_in_range f f'"
proof -
  define a where "a = (if raw_imm_is_relative i then
               (case ZydisCalcAbsoluteAddress z i (case operands i of
                        [] \<Rightarrow> \<lparr>imm_value_u = 0, mem_disp_value = 0, ptr_offset = 0\<rparr>
                      | op # _ \<Rightarrow> op) (runtime_address l) of
                  Inl e \<Rightarrow> address l | Inr a \<Rightarrow> a)
             else address l)"
  define f1 where "f1 = (if raw_imm_is_relative i then
               (if a \<ge> m_startAddress f \<and> a \<le> m_endAddress f
                then insert_label f a else f)
             else f)"
  have f1: "labels_added_in_range f f1"
    unfolding f1_def by (simp add: added_refl added_insert in_function_def)
  from assms have "pass1_detect n i f1 ((advance l (ucast (info_length i)))\<lparr>address := a\<rparr>) = Some (f', l')"
    unfolding pass1_body_def Let_def f1_def a_def .
  from pass1_detect_added [OF this] f1 show ?thesis
    by (blast intro: added_trans)
qed

lemma pass1_loop_added:
  "pass1_loop n z f l = Some (f', l') \<Longrightarrow> labels_added_in_range f f'"
proof (induction n arbitrary: f l)
  case 0
  then show ?case by simp
next
  case (Suc n)
  then show ?case
    by (auto simp add: added_refl split: sum.splits if_splits option.splits
        dest!: pass1_body_added intro: added_trans)
qed

text \<open>
  C3. Every key that the first loop adds to the label table, be it a relative-branch
  target, a jump-table anchor or a slot value, lies within the function's address range
  \<open>[m_startAddress, m_endAddress]\<close>.
\<close>

theorem pass1_labels_in_range:
  assumes "pass1_loop n zydis func l = Some (func', l')"
  shows "\<forall>a \<in> dom (m_labels func').
           a \<in> dom (m_labels func) \<or> (m_startAddress func \<le> a \<and> a \<le> m_endAddress func)"
  using pass1_loop_added [OF assms]
  unfolding labels_added_in_range_def in_function_def by auto

section \<open>Pass 2 only appends text\<close>

lemma render_all_simps [simp]:
  "render_all [] = []" "render_all (x # xs) = render x @ render_all xs"
  "render_all (xs @ ys) = render_all xs @ render_all ys"
  by (simp_all add: render_all_def)

lemma instruction_lines_append [simp]:
  "instruction_lines (xs @ ys) = instruction_lines xs @ instruction_lines ys"
  by (induction xs rule: instruction_lines.induct) simp_all

lemma append_label_line_text:
  assumes "m_labels f a = Some name"
  shows "append_label_line (f\<lparr>m_dissassembly := d\<rparr>) p a s = f\<lparr>m_dissassembly := d @ p @ name @ s\<rparr>"
  using assms by (simp add: append_label_line_def map_index_def)

lemma section_bounds_text [simp]:
  "func_section_address (f\<lparr>m_dissassembly := d\<rparr>) = func_section_address f"
  "func_section_end (f\<lparr>m_dissassembly := d\<rparr>) = func_section_end f"
  by (simp_all add: func_section_address_def func_section_end_def)

lemma hooks_text [simp]:
  "UnasmFormatterPrintAddressAbsolute z (f\<lparr>m_dissassembly := d\<rparr>) = UnasmFormatterPrintAddressAbsolute z f"
  "UnasmFormatterPrintAddressRelative z (f\<lparr>m_dissassembly := d\<rparr>) = UnasmFormatterPrintAddressRelative z f"
  "UnasmFormatterPrintIMM z (f\<lparr>m_dissassembly := d\<rparr>) = UnasmFormatterPrintIMM z f"
  "UnasmFormatterPrintDISP z (f\<lparr>m_dissassembly := d\<rparr>) = UnasmFormatterPrintDISP z f"
  "UnasmFormatterFormatOperandPTR z (f\<lparr>m_dissassembly := d\<rparr>) = UnasmFormatterFormatOperandPTR z f"
  by (simp_all add: fun_eq_iff UnasmFormatterPrintAddressAbsolute_def
      UnasmFormatterPrintAddressRelative_def UnasmFormatterPrintIMM_def UnasmFormatterPrintDISP_def
      UnasmFormatterFormatOperandPTR_def cong: sum.case_cong option.case_cong if_cong)

lemma unasm_hooks_text [simp]: "unasm_hooks z (f\<lparr>m_dissassembly := d\<rparr>) = unasm_hooks z f"
  by (simp add: unasm_hooks_def)

lemma UnasmDisassembleCustom_text [simp]:
  "UnasmDisassembleCustom z m ra buf len (f\<lparr>m_dissassembly := d\<rparr>) = UnasmDisassembleCustom z m ra buf len f"
  by (simp add: UnasmDisassembleCustom_def Let_def cong: sum.case_cong)

lemma label_names_append [simp]:
  "label_names (xs @ ys) = label_names xs @ label_names ys"
  by (induction xs rule: label_names.induct) simp_all

lemma pass2_jump_table_emits:
  "pass2_jump_table n f l ni jt = Some (f', l') \<Longrightarrow>
     \<exists>ls. instruction_lines ls = []
        \<and> set (label_names ls) \<subseteq> ran (m_labels f)
        \<and> (\<forall>d. pass2_jump_table n (f\<lparr>m_dissassembly := d\<rparr>) l ni jt
                 = Some (f\<lparr>m_dissassembly := d @ render_all ls\<rparr>, l'))"
proof (induction n arbitrary: f l ni jt f')
  case 0
  then show ?case by simp
next
  case (Suc n)
  show ?case
  proof (cases "ni \<ge> m_startAddress f \<and> ni \<le> m_endAddress f")
    case False
    with Suc.prems have "l' = l" by auto
    with False show ?thesis
      by (intro exI [of _ "[]"]) auto
  next
    case True
    define ls1 where "ls1 = (if \<not> jt then (case m_labels f (runtime_address l) of
                                 Some name \<Rightarrow> [LabelLine name] | None \<Rightarrow> []) else [])"
    define ls2 where "ls2 = (case m_labels f ni of Some name \<Rightarrow> [IntLine name] | None \<Rightarrow> [])"
    have step: "pass2_jump_table (Suc n) (f\<lparr>m_dissassembly := d\<rparr>) l ni jt
        = pass2_jump_table n (f\<lparr>m_dissassembly := d @ render_all (ls1 @ ls2)\<rparr>) (advance l 4)
            (next_int_at f (offset (advance l 4))) True" for d
      using True
      by (auto simp add: Let_def ls1_def ls2_def append_label_line_text split: option.splits)
    from step [of "m_dissassembly f"] Suc.prems
    have "pass2_jump_table n (f\<lparr>m_dissassembly := m_dissassembly f @ render_all (ls1 @ ls2)\<rparr>) (advance l 4)
            (next_int_at f (offset (advance l 4))) True = Some (f', l')"
      by simp
    from Suc.IH [OF this] obtain ls where ls: "instruction_lines ls = []"
      "set (label_names ls) \<subseteq> ran (m_labels f)"
      "\<And>d. pass2_jump_table n (f\<lparr>m_dissassembly := d\<rparr>) (advance l 4)
            (next_int_at f (offset (advance l 4))) True = Some (f\<lparr>m_dissassembly := d @ render_all ls\<rparr>, l')"
      by auto
    have "instruction_lines (ls1 @ ls2 @ ls) = []"
      using ls(1) by (simp add: ls1_def ls2_def split: option.splits)
    moreover have "set (label_names (ls1 @ ls2 @ ls)) \<subseteq> ran (m_labels f)"
      using ls(2) by (auto simp add: ls1_def ls2_def ranI split: option.splits if_splits)
    moreover have "pass2_jump_table (Suc n) (f\<lparr>m_dissassembly := d\<rparr>) l ni jt
                 = Some (f\<lparr>m_dissassembly := d @ render_all (ls1 @ ls2 @ ls)\<rparr>, l')" for d
      unfolding step ls(3) by simp
    ultimately show ?thesis by blast
  qed
qed

lemma pass2_detect_emits:
  assumes "pass2_detect n i f l = Some (f', l')"
  shows "\<exists>ls. instruction_lines ls = []
        \<and> set (label_names ls) \<subseteq> ran (m_labels f)
        \<and> (\<forall>d. pass2_detect n i (f\<lparr>m_dissassembly := d\<rparr>) l
                 = Some (f\<lparr>m_dissassembly := d @ render_all ls\<rparr>, l'))"
proof (cases "info_mnemonic i = ZYDIS_MNEMONIC_NOP \<or> info_mnemonic i = ZYDIS_MNEMONIC_JMP")
  case True
  with assms have "pass2_jump_table n f l (next_int_at f (offset l)) False = Some (f', l')"
    by (simp add: pass2_detect_def)
  from pass2_jump_table_emits [OF this] True show ?thesis
    by (simp add: pass2_detect_def)
next
  case False
  with assms have "l' = l" by (simp add: pass2_detect_def)
  with False show ?thesis
    by (intro exI [of _ "[]"]) (simp add: pass2_detect_def)
qed

lemma pass2_body_emits:
  assumes "pass2_body n i f l = Some (f', l')"
  shows "\<exists>ls. instruction_lines ls = [insn_text i]
        \<and> set (label_names ls) \<subseteq> ran (m_labels f)
        \<and> (\<forall>d. pass2_body n i (f\<lparr>m_dissassembly := d\<rparr>) l
                 = Some (f\<lparr>m_dissassembly := d @ render_all ls\<rparr>, l'))"
proof -
  define ls1 where "ls1 = (case m_labels f (runtime_address l) of
                             Some name \<Rightarrow> [LabelLine name] | None \<Rightarrow> []) @ [InsnLine (insn_text i)]"
  have step: "pass2_body n i (f\<lparr>m_dissassembly := d\<rparr>) l
        = pass2_detect n i (f\<lparr>m_dissassembly := d @ render_all ls1\<rparr>) (advance l (ucast (info_length i)))" for d
    by (auto simp add: pass2_body_def Let_def ls1_def append_label_line_text split: option.splits)
  from step [of "m_dissassembly f"] assms
  have "pass2_detect n i (f\<lparr>m_dissassembly := m_dissassembly f @ render_all ls1\<rparr>)
          (advance l (ucast (info_length i))) = Some (f', l')"
    by simp
  from pass2_detect_emits [OF this] obtain ls where ls: "instruction_lines ls = []"
      "set (label_names ls) \<subseteq> ran (m_labels f)"
      "\<And>d. pass2_detect n i (f\<lparr>m_dissassembly := d\<rparr>) (advance l (ucast (info_length i)))
             = Some (f\<lparr>m_dissassembly := d @ render_all ls\<rparr>, l')"
    by auto
  have "instruction_lines (ls1 @ ls) = [insn_text i]"
    using ls(1) by (simp add: ls1_def split: option.splits)
  moreover have "set (label_names (ls1 @ ls)) \<subseteq> ran (m_labels f)"
    using ls(2) by (auto simp add: ls1_def ranI split: option.splits)
  moreover have "pass2_body n i (f\<lparr>m_dissassembly := d\<rparr>) l
                 = Some (f\<lparr>m_dissassembly := d @ render_all (ls1 @ ls)\<rparr>, l')" for d
    unfolding step ls(3) by simp
  ultimately show ?thesis by blast
qed

lemma pass2_loop_emits:
  "pass2_loop n z f l = Some (f', l') \<Longrightarrow>
     \<exists>ls. \<forall>d. pass2_loop n z (f\<lparr>m_dissassembly := d\<rparr>) l
                 = Some (f\<lparr>m_dissassembly := d @ render_all ls\<rparr>, l')"
proof (induction n arbitrary: f l f')
  case 0
  then show ?case by simp
next
  case (Suc n)
  let ?dec = "UnasmDisassembleCustom z ZYDIS_MACHINE_MODE_LEGACY_32 (runtime_address l)
             (ptr_add (function_data f) (offset l)) 96 f"
  show ?case
  proof (cases ?dec)
    case (Inl e)
    with Suc.prems have "l' = l" by simp
    with Inl show ?thesis by (intro exI [of _ "[]"]) simp
  next
    case (Inr i)
    show ?thesis
    proof (cases "offset l \<le> end_offset l")
      case False
      with Inr Suc.prems have "l' = l" by simp
      with Inr False show ?thesis by (intro exI [of _ "[]"]) simp
    next
      case True
      with Inr Suc.prems obtain f1 l1 where
        body: "pass2_body n i f l = Some (f1, l1)" and rest: "pass2_loop n z f1 l1 = Some (f', l')"
        by (auto split: option.splits)
      from pass2_body_emits [OF body] obtain ls1 where
        ls1: "\<And>d. pass2_body n i (f\<lparr>m_dissassembly := d\<rparr>) l
                 = Some (f\<lparr>m_dissassembly := d @ render_all ls1\<rparr>, l1)"
        by auto
      from ls1 [of "m_dissassembly f"] body
      have f1: "f1 = f\<lparr>m_dissassembly := m_dissassembly f @ render_all ls1\<rparr>" by simp
      from Suc.IH [OF rest] obtain ls where
        ls: "\<And>d. pass2_loop n z (f1\<lparr>m_dissassembly := d\<rparr>) l1
                 = Some (f1\<lparr>m_dissassembly := d @ render_all ls\<rparr>, l')"
        by auto
      have "pass2_loop (Suc n) z (f\<lparr>m_dissassembly := d\<rparr>) l
              = Some (f\<lparr>m_dissassembly := d @ render_all (ls1 @ ls)\<rparr>, l')" for d
        using Inr True ls1 [of d] ls [of "d @ render_all ls1"] by (simp add: f1)
      then show ?thesis by blast
    qed
  qed
qed

text \<open>
  C10. The second loop leaves the label table as it found it: the function object it
  returns is the one it was given with text appended to \<open>m_dissassembly\<close>.
\<close>

theorem pass2_keeps_labels:
  assumes "pass2_loop n zydis func l = Some (func', l')"
  shows "m_labels func' = m_labels func
       \<and> (\<exists>t. func' = func\<lparr>m_dissassembly := m_dissassembly func @ t\<rparr>)"
proof -
  from pass2_loop_emits [OF assms] obtain ls where
    "pass2_loop n zydis (func\<lparr>m_dissassembly := m_dissassembly func\<rparr>) l
       = Some (func\<lparr>m_dissassembly := m_dissassembly func @ render_all ls\<rparr>, l')"
    by blast
  with assms have "func' = func\<lparr>m_dissassembly := m_dissassembly func @ render_all ls\<rparr>"
    by simp
  then show ?thesis by auto
qed

section \<open>Running the disassembly again\<close>

lemma added_shape:
  assumes "labels_added_in_range f g"
  shows "g\<lparr>m_labels := M, m_dissassembly := d\<rparr> = f\<lparr>m_labels := M, m_dissassembly := d\<rparr>"
    and "dom (m_labels f) \<subseteq> dom (m_labels g)"
  using assms unfolding labels_added_in_range_def by auto

lemma insert_label_known:
  assumes "a \<in> dom M"
  shows "insert_label (f\<lparr>m_labels := M, m_dissassembly := d\<rparr>) a = f\<lparr>m_labels := M, m_dissassembly := d\<rparr>"
  using assms by (auto simp add: insert_label_def)

lemma pass1_jump_table_rerun:
  "pass1_jump_table n f l ni jt = Some (f', l') \<Longrightarrow> dom (m_labels f') \<subseteq> dom M \<Longrightarrow>
     pass1_jump_table n (f\<lparr>m_labels := M, m_dissassembly := d\<rparr>) l ni jt
       = Some (f\<lparr>m_labels := M, m_dissassembly := d\<rparr>, l')"
proof (induction n arbitrary: f l ni jt)
  case 0
  then show ?case by simp
next
  case (Suc n)
  let ?g = "f\<lparr>m_labels := M, m_dissassembly := d\<rparr>"
  show ?case
  proof (cases "ni \<ge> m_startAddress f \<and> ni \<le> m_endAddress f")
    case False
    with Suc.prems(1) have "l' = l" by auto
    with False show ?thesis by auto
  next
    case True
    define f1 where "f1 = (if \<not> jt then
                  (if runtime_address l \<ge> m_startAddress f \<and> runtime_address l \<le> m_endAddress f
                   then insert_label f (runtime_address l) else f)
                else f)"
    define f2 where "f2 = insert_label f1 ni"
    have f1: "labels_added_in_range f f1"
      unfolding f1_def by (simp add: added_refl added_insert in_function_def)
    have "in_function f1 ni"
      using True added_in_function [OF f1] by (simp add: in_function_def)
    then have "labels_added_in_range f1 f2"
      unfolding f2_def by (rule added_insert)
    with f1 have f2: "labels_added_in_range f f2" by (rule added_trans)
    from Suc.prems(1) True
    have run: "pass1_jump_table n f2 (advance l 4) (next_int_at f (offset (advance l 4))) True = Some (f', l')"
      by (simp add: Let_def f1_def f2_def)
    from pass1_jump_table_added [OF run] have "dom (m_labels f2) \<subseteq> dom (m_labels f')"
      by (rule added_shape(2))
    with Suc.prems(2) have sub: "dom (m_labels f2) \<subseteq> dom M" by simp
    have ni: "ni \<in> dom M" using sub by (auto simp add: f2_def)
    have ra: "\<not> jt \<Longrightarrow> runtime_address l \<ge> m_startAddress f \<and> runtime_address l \<le> m_endAddress f
                \<Longrightarrow> runtime_address l \<in> dom M"
      using sub by (auto simp add: f2_def f1_def)
    have g1: "(if \<not> jt then
                  (if runtime_address l \<ge> m_startAddress ?g \<and> runtime_address l \<le> m_endAddress ?g
                   then insert_label ?g (runtime_address l) else ?g)
                else ?g) = ?g"
      using ra by (simp add: insert_label_known)
    have "pass1_jump_table (Suc n) ?g l ni jt
            = pass1_jump_table n ?g (advance l 4) (next_int_at f (offset (advance l 4))) True"
      using True unfolding pass1_jump_table.simps Let_def g1
      by (simp add: insert_label_known [OF ni] next_int_at_def function_data_def)
    also have "\<dots> = Some (?g, l')"
      using Suc.IH [OF run Suc.prems(2)] by (simp add: added_shape(1) [OF f2])
    finally show ?thesis .
  qed
qed

lemma pass1_detect_rerun:
  assumes "pass1_detect n i f l = Some (f', l')" and "dom (m_labels f') \<subseteq> dom M"
  shows "pass1_detect n i (f\<lparr>m_labels := M, m_dissassembly := d\<rparr>) l
           = Some (f\<lparr>m_labels := M, m_dissassembly := d\<rparr>, l')"
proof (cases "info_mnemonic i = ZYDIS_MNEMONIC_NOP \<or> info_mnemonic i = ZYDIS_MNEMONIC_JMP")
  case True
  with assms(1) have "pass1_jump_table n f l (next_int_at f (offset l)) False = Some (f', l')"
    by (simp add: pass1_detect_def)
  from pass1_jump_table_rerun [OF this assms(2)] True show ?thesis
    by (simp add: pass1_detect_def next_int_at_def function_data_def)
next
  case False
  with assms(1) show ?thesis by (simp add: pass1_detect_def)
qed

lemma pass1_body_rerun:
  assumes "pass1_body n z i f l = Some (f', l')" and "dom (m_labels f') \<subseteq> dom M"
  shows "pass1_body n z i (f\<lparr>m_labels := M, m_dissassembly := d\<rparr>) l
           = Some (f\<lparr>m_labels := M, m_dissassembly := d\<rparr>, l')"
proof -
  let ?g = "f\<lparr>m_labels := M, m_dissassembly := d\<rparr>"
  define a where "a = (if raw_imm_is_relative i then
               (case ZydisCalcAbsoluteAddress z i (case operands i of
                        [] \<Rightarrow> \<lparr>imm_value_u = 0, mem_disp_value = 0, ptr_offset = 0\<rparr>
                      | op # _ \<Rightarrow> op) (runtime_address l) of
                  Inl e \<Rightarrow> address l | Inr a \<Rightarrow> a)
             else address l)"
  define f1 where "f1 = (if raw_imm_is_relative i then
               (if a \<ge> m_startAddress f \<and> a \<le> m_endAddress f
                then insert_label f a else f)
             else f)"
  define l1 where "l1 = (advance l (ucast (info_length i)))\<lparr>address := a\<rparr>"
  have f1: "labels_added_in_range f f1"
    unfolding f1_def by (simp add: added_refl added_insert in_function_def)
  from assms(1) have run: "pass1_detect n i f1 l1 = Some (f', l')"
    unfolding pass1_body_def Let_def f1_def a_def l1_def .
  from pass1_detect_added [OF run] have "dom (m_labels f1) \<subseteq> dom (m_labels f')"
    by (rule added_shape(2))
  with assms(2) have sub: "dom (m_labels f1) \<subseteq> dom M" by simp
  have g1: "(if raw_imm_is_relative i then
               (if a \<ge> m_startAddress ?g \<and> a \<le> m_endAddress ?g
                then insert_label ?g a else ?g)
             else ?g) = ?g"
    using sub by (auto simp add: f1_def insert_label_known split: if_splits)
  have "pass1_body n z i ?g l = pass1_detect n i ?g l1"
    unfolding pass1_body_def Let_def a_def [symmetric] g1 l1_def ..
  also have "\<dots> = Some (?g, l')"
    using pass1_detect_rerun [OF run assms(2), of d] by (simp add: added_shape(1) [OF f1])
  finally show ?thesis .
qed

lemma pass1_loop_rerun:
  "pass1_loop n z f l = Some (f', l') \<Longrightarrow> dom (m_labels f') \<subseteq> dom M \<Longrightarrow>
     pass1_loop n z (f\<lparr>m_labels := M, m_dissassembly := d\<rparr>) l
       = Some (f\<lparr>m_labels := M, m_dissassembly := d\<rparr>, l')"
proof (induction n arbitrary: f l)
  case 0
  then show ?case by simp
next
  case (Suc n)
  let ?g = "f\<lparr>m_labels := M, m_dissassembly := d\<rparr>"
  let ?dec = "UnasmDisassembleNoFormat z ZYDIS_MACHINE_MODE_LEGACY_32 (runtime_address l)
             (ptr_add (function_data f) (offset l)) 96"
  have data: "function_data ?g = function_data f" by (simp add: function_data_def)
  show ?case
  proof (cases ?dec)
    case (Inl e)
    with Suc.prems(1) show ?thesis by (simp add: data)
  next
    case (Inr i)
    show ?thesis
    proof (cases "offset l \<le> end_offset l")
      case False
      with Inr Suc.prems(1) show ?thesis by (simp add: data)
    next
      case True
      with Inr Suc.prems(1) obtain f1 l1 where
        body: "pass1_body n z i f l = Some (f1, l1)" and rest: "pass1_loop n z f1 l1 = Some (f', l')"
        by (auto split: option.splits)
      have f1: "labels_added_in_range f f1" using body by (rule pass1_body_added)
      from pass1_loop_added [OF rest] have "dom (m_labels f1) \<subseteq> dom (m_labels f')"
        by (rule added_shape(2))
      with Suc.prems(2) have sub: "dom (m_labels f1) \<subseteq> dom M" by simp
      from pass1_body_rerun [OF body sub]
      have "pass1_body n z i ?g l = Some (?g, l1)" .
      moreover from Suc.IH [OF rest Suc.prems(2)]
      have "pass1_loop n z ?g l1 = Some (?g, l')" by (simp add: added_shape(1) [OF f1])
      ultimately show ?thesis using Inr True by (simp add: data)
    qed
  qed
qed

text \<open>
  C8, amended. Running \<open>disassemble\<close> a second time on the function object leaves the label
  table as the first run left it and emits byte for byte the text \<open>t\<close> that the first run
  emitted. The text is appended to \<open>m_dissassembly\<close>, which is never cleared: after the
  second run it holds \<open>t\<close> twice.
\<close>

theorem disassemble_rerun:
  assumes "disassemble n zydis func address0 = Some func1"
  shows "\<exists>t. m_dissassembly func1 = m_dissassembly func @ t
            \<and> (\<exists>func2. disassemble n zydis func1 address0 = Some func2
                  \<and> m_dissassembly func2 = m_dissassembly func1 @ t
                  \<and> m_labels func2 = m_labels func1)"
proof (cases "section_size (m_executable func) (m_section func) = 0")
  case True
  with assms have "func1 = func" by (simp add: disassemble_def)
  with True assms show ?thesis by (intro exI [of _ "[]"]) simp
next
  case False
  define l0 where "l0 = \<lparr> offset = m_startAddress func - section_address (m_executable func) (m_section func),
                    runtime_address = m_startAddress func,
                    end_offset = m_endAddress func - section_address (m_executable func) (m_section func),
                    address = address0 \<rparr>"
  from assms False obtain fa l1 l3 where
    p1: "pass1_loop n zydis func l0 = Some (fa, l1)" and
    p2: "pass2_loop n zydis fa (l1\<lparr>offset := m_startAddress fa - section_address (m_executable fa) (m_section fa),
                             runtime_address := m_startAddress fa\<rparr>) = Some (func1, l3)"
    by (auto simp add: disassemble_def Let_def l0_def split: option.splits)
  from pass1_loop_added [OF p1] obtain La where fa: "fa = func\<lparr>m_labels := La\<rparr>"
    unfolding labels_added_in_range_def by blast
  from pass2_loop_emits [OF p2] obtain ls where
    ls: "\<And>d. pass2_loop n zydis (fa\<lparr>m_dissassembly := d\<rparr>)
              (l1\<lparr>offset := m_startAddress fa - section_address (m_executable fa) (m_section fa),
                  runtime_address := m_startAddress fa\<rparr>)
            = Some (fa\<lparr>m_dissassembly := d @ render_all ls\<rparr>, l3)"
    by blast
  from ls [of "m_dissassembly fa"] p2
  have f1: "func1 = fa\<lparr>m_dissassembly := m_dissassembly fa @ render_all ls\<rparr>" by simp
  then have f1': "func1 = func\<lparr>m_labels := La, m_dissassembly := m_dissassembly func @ render_all ls\<rparr>"
    by (simp add: fa)
  have l0': "\<lparr> offset = m_startAddress func1 - section_address (m_executable func1) (m_section func1),
                    runtime_address = m_startAddress func1,
                    end_offset = m_endAddress func1 - section_address (m_executable func1) (m_section func1),
                    address = address0 \<rparr> = l0"
    by (simp add: f1' l0_def)
  have size1: "section_size (m_executable func1) (m_section func1) \<noteq> 0"
    using False by (simp add: f1')
  have "dom (m_labels fa) \<subseteq> dom La" by (simp add: fa)
  from pass1_loop_rerun [OF p1 this, of "m_dissassembly func @ render_all ls"]
  have q1: "pass1_loop n zydis func1 l0 = Some (func1, l1)"
    by (simp add: f1')
  have q2: "pass2_loop n zydis func1 (l1\<lparr>offset := m_startAddress func1 - section_address (m_executable func1) (m_section func1),
                             runtime_address := m_startAddress func1\<rparr>)
              = Some (func1\<lparr>m_dissassembly := m_dissassembly func1 @ render_all ls\<rparr>, l3)"
    using ls [of "m_dissassembly func @ render_all ls"]
    by (simp add: f1' fa)
  have "disassemble n zydis func1 address0
          = Some (func1\<lparr>m_dissassembly := m_dissassembly func1 @ render_all ls\<rparr>)"
    using size1 q1 q2 by (simp add: disassemble_def l0' Let_def)
  moreover have "m_dissassembly func1 = m_dissassembly func @ render_all ls"
    by (simp add: f1')
  ultimately show ?thesis by auto
qed

section \<open>Decode failure in pass 2\<close>






section \<open>The jump table scenario\<close>

lemma advance_advance [simp]: "advance (advance l a) b = advance l (a + b)"
  by (simp add: advance_def add.assoc)

lemma advance_sel [simp]:
  "offset (advance l a) = offset l + a" "runtime_address (advance l a) = runtime_address l + a"
  by (simp_all add: advance_def)

lemma insert_label_fresh:
  "m_labels f a = None \<Longrightarrow> insert_label f a = f\<lparr>m_labels := (m_labels f)(a \<mapsto> label_name a)\<rparr>"
  by (simp add: insert_label_def new_label_def)

lemma pass1_jump_table_step:
  assumes "in_function f ni"
  shows "pass1_jump_table (Suc n) f l ni jt
           = pass1_jump_table n
               (insert_label (if \<not> jt \<and> in_function f (runtime_address l)
                              then insert_label f (runtime_address l) else f) ni)
               (advance l 4) (next_int_at f (offset l + 4)) True"
  using assms by (simp add: in_function_def Let_def)

lemma pass1_jump_table_stop:
  assumes "\<not> in_function f ni"
  shows "pass1_jump_table (Suc n) f l ni jt = Some (f, l)"
  using assms by (auto simp add: in_function_def)

lemma pass2_jump_table_step:
  assumes "in_function f ni"
  shows "pass2_jump_table (Suc n) f l ni jt
           = (let func1 =
               (if \<not> jt then
                  (if m_labels f (runtime_address l) \<noteq> None
                   then append_label_line f [] (runtime_address l) ('':'' @ NL) else f)
                else f);
             func2 =
               (if m_labels func1 ni \<noteq> None
                then append_label_line func1 ''    .int '' ni NL else func1)
              in pass2_jump_table n func2 (advance l 4) (next_int_at f (offset l + 4)) True)"
proof -
  from assms have "(ni \<ge> m_startAddress f \<and> ni \<le> m_endAddress f) = True"
    by (simp add: in_function_def)
  then show ?thesis
    unfolding pass2_jump_table.simps Let_def by (simp only: if_True advance_sel)
qed

lemma pass2_jump_table_stop:
  assumes "\<not> in_function f ni"
  shows "pass2_jump_table (Suc n) f l ni jt = Some (f, l)"
  using assms by (auto simp add: in_function_def)

lemma pass1_table_three:
  assumes w1: "next_int_at f (offset l) = w1" "in_function f w1"
    and w2: "next_int_at f (offset l + 4) = w2" "in_function f w2"
    and w3: "next_int_at f (offset l + 8) = w3" "in_function f w3"
    and w4: "\<not> in_function f (next_int_at f (offset l + 12))"
    and anchor: "in_function f (runtime_address l)"
    and dist: "distinct [runtime_address l, w1, w2, w3]"
    and fresh: "{runtime_address l, w1, w2, w3} \<inter> dom (m_labels f) = {}"
  shows "pass1_jump_table (Suc (Suc (Suc (Suc k)))) f l w1 False
           = Some (f\<lparr>m_labels := (m_labels f)(runtime_address l \<mapsto> label_name (runtime_address l),
                       w1 \<mapsto> label_name w1, w2 \<mapsto> label_name w2, w3 \<mapsto> label_name w3)\<rparr>,
                   advance l 12)"
proof -
  let ?a = "runtime_address l"
  have none: "m_labels f ?a = None" "m_labels f w1 = None" "m_labels f w2 = None" "m_labels f w3 = None"
    using fresh by auto
  have neq: "w1 \<noteq> ?a" "w2 \<noteq> ?a" "w3 \<noteq> ?a" "w2 \<noteq> w1" "w3 \<noteq> w1" "w3 \<noteq> w2"
    using dist by auto
  let ?f1 = "f\<lparr>m_labels := (m_labels f)(?a \<mapsto> label_name ?a, w1 \<mapsto> label_name w1)\<rparr>"
  let ?f2 = "f\<lparr>m_labels := (m_labels f)(?a \<mapsto> label_name ?a, w1 \<mapsto> label_name w1, w2 \<mapsto> label_name w2)\<rparr>"
  let ?f3 = "f\<lparr>m_labels := (m_labels f)(?a \<mapsto> label_name ?a, w1 \<mapsto> label_name w1,
                w2 \<mapsto> label_name w2, w3 \<mapsto> label_name w3)\<rparr>"
  have s1: "pass1_jump_table (Suc (Suc (Suc (Suc k)))) f l w1 False
              = pass1_jump_table (Suc (Suc (Suc k))) ?f1 (advance l 4) w2 True"
    using w2(1) anchor dist none neq
    by (simp add: pass1_jump_table_step [OF w1(2)] insert_label_fresh
        del: pass1_jump_table.simps)
  have s2: "pass1_jump_table (Suc (Suc (Suc k))) ?f1 (advance l 4) w2 True
              = pass1_jump_table (Suc (Suc k)) ?f2 (advance l 8) w3 True"
    using w2(2) w3(1) dist none neq
    by (simp add: pass1_jump_table_step insert_label_fresh add.assoc
        del: pass1_jump_table.simps)
  have s3: "pass1_jump_table (Suc (Suc k)) ?f2 (advance l 8) w3 True
              = pass1_jump_table (Suc k) ?f3 (advance l 12) (next_int_at f (offset l + 12)) True"
    using w3(2) dist none neq
    by (simp add: pass1_jump_table_step insert_label_fresh add.assoc
        del: pass1_jump_table.simps)
  have s4: "pass1_jump_table (Suc k) ?f3 (advance l 12) (next_int_at f (offset l + 12)) True
              = Some (?f3, advance l 12)"
    using w4 by (simp add: pass1_jump_table_stop del: pass1_jump_table.simps)
  show ?thesis unfolding s1 s2 s3 s4 ..
qed

lemma pass2_table_three:
  assumes w1: "next_int_at f (offset l) = w1" "in_function f w1"
    and w2: "next_int_at f (offset l + 4) = w2" "in_function f w2"
    and w3: "next_int_at f (offset l + 8) = w3" "in_function f w3"
    and w4: "\<not> in_function f (next_int_at f (offset l + 12))"
    and names: "m_labels f (runtime_address l) = Some na" "m_labels f w1 = Some n1"
       "m_labels f w2 = Some n2" "m_labels f w3 = Some n3"
  shows "pass2_jump_table (Suc (Suc (Suc (Suc k)))) f l w1 False
           = Some (f\<lparr>m_dissassembly := m_dissassembly f
                      @ render_all [LabelLine na, IntLine n1, IntLine n2, IntLine n3]\<rparr>,
                   advance l 12)"
proof -
  let ?t1 = "m_dissassembly f @ render_all [LabelLine na, IntLine n1]"
  let ?t2 = "m_dissassembly f @ render_all [LabelLine na, IntLine n1, IntLine n2]"
  let ?t3 = "m_dissassembly f @ render_all [LabelLine na, IntLine n1, IntLine n2, IntLine n3]"
  have upd: "append_label_line g p a s = g\<lparr>m_dissassembly := m_dissassembly g @ p @ name @ s\<rparr>"
    if "m_labels g a = Some name" for g p a s name
    using that by (simp add: append_label_line_def map_index_def)
  have s1: "pass2_jump_table (Suc (Suc (Suc (Suc k)))) f l w1 False
              = pass2_jump_table (Suc (Suc (Suc k))) (f\<lparr>m_dissassembly := ?t1\<rparr>) (advance l 4) w2 True"
    using w2(1) names
    by (simp add: pass2_jump_table_step [OF w1(2)] upd Let_def del: pass2_jump_table.simps)
  have s2: "pass2_jump_table (Suc (Suc (Suc k))) (f\<lparr>m_dissassembly := ?t1\<rparr>) (advance l 4) w2 True
              = pass2_jump_table (Suc (Suc k)) (f\<lparr>m_dissassembly := ?t2\<rparr>) (advance l 8) w3 True"
    using w2(2) w3(1) names
    by (simp add: pass2_jump_table_step upd Let_def add.assoc del: pass2_jump_table.simps)
  have s3: "pass2_jump_table (Suc (Suc k)) (f\<lparr>m_dissassembly := ?t2\<rparr>) (advance l 8) w3 True
              = pass2_jump_table (Suc k) (f\<lparr>m_dissassembly := ?t3\<rparr>) (advance l 12)
                  (next_int_at f (offset l + 12)) True"
    using w3(2) names
    by (simp add: pass2_jump_table_step upd Let_def add.assoc del: pass2_jump_table.simps)
  have s4: "pass2_jump_table (Suc k) (f\<lparr>m_dissassembly := ?t3\<rparr>) (advance l 12)
                  (next_int_at f (offset l + 12)) True
              = Some (f\<lparr>m_dissassembly := ?t3\<rparr>, advance l 12)"
    using w4 by (simp add: pass2_jump_table_stop del: pass2_jump_table.simps)
  show ?thesis unfolding s1 s2 s3 s4 ..
qed

text \<open>
  C2, amended. After a \<^verbatim>\<open>jmp\<close> that is followed by four little-endian words, the first three
  within the function's range and the fourth outside, with the anchor (the address right
  after the \<^verbatim>\<open>jmp\<close>) within the range, and anchor and word values pairwise distinct and not
  yet labelled: pass 1 adds exactly these four labels and stops 12 bytes further, at the
  fourth word; pass 2, with any label table that extends this one, emits the anchor's label
  line and exactly three \<^verbatim>\<open>.int\<close> lines and stops at the same place.
\<close>

theorem jump_table_scenario:
  assumes "info_mnemonic insn = ZYDIS_MNEMONIC_JMP"
    and "next_int_at func (offset l) = w1" and "in_function func w1"
    and "next_int_at func (offset l + 4) = w2" and "in_function func w2"
    and "next_int_at func (offset l + 8) = w3" and "in_function func w3"
    and "\<not> in_function func (next_int_at func (offset l + 12))"
    and "in_function func (runtime_address l)"
    and "distinct [runtime_address l, w1, w2, w3]"
    and "{runtime_address l, w1, w2, w3} \<inter> dom (m_labels func) = {}"
    and "4 \<le> n"
    and "labels1 = (m_labels func)(runtime_address l \<mapsto> label_name (runtime_address l),
                       w1 \<mapsto> label_name w1, w2 \<mapsto> label_name w2, w3 \<mapsto> label_name w3)"
  shows "pass1_detect n insn func l = Some (func\<lparr>m_labels := labels1\<rparr>, advance l 12)
       \<and> dom labels1 - dom (m_labels func) = {runtime_address l, w1, w2, w3}
       \<and> card (dom labels1 - dom (m_labels func)) = 4
       \<and> (\<forall>labels2 dis. labels1 \<subseteq>\<^sub>m labels2 \<longrightarrow>
             pass2_detect n insn (func\<lparr>m_labels := labels2, m_dissassembly := dis\<rparr>) l
               = Some (func\<lparr>m_labels := labels2,
                         m_dissassembly := dis @ render_all
                           [LabelLine (label_name (runtime_address l)), IntLine (label_name w1),
                            IntLine (label_name w2), IntLine (label_name w3)]\<rparr>,
                       advance l 12))"
proof -
  define k where "k = n - 4"
  from \<open>4 \<le> n\<close> have n: "n = Suc (Suc (Suc (Suc k)))"
    by (simp add: k_def)
  have p1: "pass1_detect n insn func l = Some (func\<lparr>m_labels := labels1\<rparr>, advance l 12)"
    using assms(1) pass1_table_three [OF assms(2-11), of k]
    by (simp add: pass1_detect_def n assms(2) assms(13))
  have d: "dom labels1 - dom (m_labels func) = {runtime_address l, w1, w2, w3}"
    using assms(11) unfolding assms(13) by auto
  have c: "card (dom labels1 - dom (m_labels func)) = 4"
    unfolding d using assms(10) by simp
  have p2: "pass2_detect n insn (func\<lparr>m_labels := labels2, m_dissassembly := dis\<rparr>) l
               = Some (func\<lparr>m_labels := labels2,
                         m_dissassembly := dis @ render_all
                           [LabelLine (label_name (runtime_address l)), IntLine (label_name w1),
                            IntLine (label_name w2), IntLine (label_name w3)]\<rparr>,
                       advance l 12)" if le: "labels1 \<subseteq>\<^sub>m labels2" for labels2 dis
  proof -
    let ?g = "func\<lparr>m_labels := labels2, m_dissassembly := dis\<rparr>"
    have l1: "labels1 (runtime_address l) = Some (label_name (runtime_address l))"
      "labels1 w1 = Some (label_name w1)" "labels1 w2 = Some (label_name w2)"
      "labels1 w3 = Some (label_name w3)"
      using assms(10) unfolding assms(13) by auto
    have names: "m_labels ?g (runtime_address l) = Some (label_name (runtime_address l))"
      "m_labels ?g w1 = Some (label_name w1)" "m_labels ?g w2 = Some (label_name w2)"
      "m_labels ?g w3 = Some (label_name w3)"
      using le l1 by (auto simp add: map_le_def dom_def)
    have "pass2_jump_table (Suc (Suc (Suc (Suc k)))) ?g l w1 False
           = Some (?g\<lparr>m_dissassembly := m_dissassembly ?g
                      @ render_all [LabelLine (label_name (runtime_address l)), IntLine (label_name w1),
                            IntLine (label_name w2), IntLine (label_name w3)]\<rparr>,
                   advance l 12)"
      by (rule pass2_table_three [OF _ _ _ _ _ _ _ names])
        (use assms(2-8) in \<open>simp_all\<close>)
    then show ?thesis
      using assms(1) by (simp add: pass2_detect_def n assms(2))
  qed
  from p1 d c p2 show ?thesis by blast
qed

section \<open>The samples, run\<close>

lemma section_bounds_labels [simp]:
  "func_section_address (f\<lparr>m_labels := M\<rparr>) = func_section_address f"
  "func_section_end (f\<lparr>m_labels := M\<rparr>) = func_section_end f"
  by (simp_all add: func_section_address_def func_section_end_def)

lemmas run_defs =
  disassemble_def pass1_body_def pass1_detect_def pass2_body_def pass2_detect_def
  UnasmDisassembleNoFormat_def UnasmDisassembleCustom_def unasm_hooks_def
  UnasmFormatterPrintAddressRelative_def UnasmFormatterPrintDISP_def
  insert_label_def new_label_def append_label_line_def map_index_def advance_def
  next_int_at_def get_le32_def ptr_add_def label_name_def
  ZyanStringAppendFormat_def ZYAN_CHECK_def
  to_hex.simps hex_digit_def Let_def
  stub_zydis_def stub_decode_def stub_calc_def stub_format_def stub_buffer_def stub_insn_def
  stub_mem_insn_def stub_default_def

lemma fuel_numeral:
  "pass1_loop (numeral k) z f l = pass1_loop (Suc (pred_numeral k)) z f l"
  "pass2_loop (numeral k) z f l = pass2_loop (Suc (pred_numeral k)) z f l"
  "pass1_jump_table (numeral k) f l ni jt = pass1_jump_table (Suc (pred_numeral k)) f l ni jt"
  "pass2_jump_table (numeral k) f l ni jt = pass2_jump_table (Suc (pred_numeral k)) f l ni jt"
  by (simp_all only: numeral_eq_Suc)

lemmas fuel_simps =
  fuel_numeral(1) [unfolded pass1_loop.simps]
  fuel_numeral(2) [unfolded pass2_loop.simps]
  fuel_numeral(3) [unfolded pass1_jump_table.simps]
  fuel_numeral(4) [unfolded pass2_jump_table.simps]

lemma sample_function_sel:
  "m_startAddress (sample_function (sample_image bytes table) e L) = 0x1000"
  "m_endAddress (sample_function (sample_image bytes table) e L) = e"
  "m_labels (sample_function (sample_image bytes table) e L) = L"
  "m_dissassembly (sample_function (sample_image bytes table) e L) = []"
  "section_size (m_executable (sample_function (sample_image bytes table) e L))
     (m_section (sample_function (sample_image bytes table) e L)) = of_nat (length bytes)"
  "func_section_address (sample_function (sample_image bytes table) e L) = 0x1000"
  "section_address (m_executable (sample_function (sample_image bytes table) e L))
     (m_section (sample_function (sample_image bytes table) e L)) = 0x1000"
  "func_section_end (sample_function (sample_image bytes table) e L) = 0x1000 + of_nat (length bytes)"
  "base_address (m_executable (sample_function (sample_image bytes table) e L)) = 0x1000"
  "end_address (m_executable (sample_function (sample_image bytes table) e L)) = 0x8fff"
  "get_symbol (m_executable (sample_function (sample_image bytes table) e L)) = sample_symbol table"
  "function_data (sample_function (sample_image bytes table) e L) i = (if i < length bytes then bytes ! i else 0)"
  by (simp_all add: sample_function_def sample_image_def func_section_address_def
      func_section_end_def function_data_def)

lemmas branch_sel = sample_function_sel [of branch_bytes "[]" "0x1007" Map.empty, folded branch_function_def]

lemmas table_sel = sample_function_sel [of table_bytes "[]" "0x1014" Map.empty, folded table_function_def]

lemmas shared_sel = sample_function_sel [of shared_bytes "[]" "0x1014" Map.empty, folded shared_function_def]

lemmas table_defs = table_jmp_def table_l_def table_labels_def table_result_def table_sel table_bytes_def

lemmas branch_defs = branch_l0_def branch_l1_def branch_l2_def branch_labelled_def branch_result_def
  branch_twice_def branch_insns_def branch_sel branch_bytes_def



lemma branch_pass1:
  "pass1_loop 10 stub_zydis branch_function branch_l0 = Some (branch_labelled, branch_l1)"
  by (simp add: run_defs branch_defs fuel_simps)

lemma branch_pass2:
  "pass2_loop 10 stub_zydis branch_labelled branch_l2 = Some (branch_result, branch_l1)"
  by (simp add: run_defs branch_defs fuel_simps)

lemma branch_run: "disassemble 10 stub_zydis branch_function 0 = Some branch_result"
  by (simp add: run_defs branch_defs fuel_simps)



lemma table_words:
  "next_int_at table_function 2 = 0x1012" "next_int_at table_function 6 = 0x1013"
  "next_int_at table_function 10 = 0x1014" "next_int_at table_function 14 = 0x2000"
  by (simp_all add: next_int_at_def get_le32_def ptr_add_def table_sel table_bytes_def)

lemma table_in_function:
  "in_function table_function 0x1002" "in_function table_function 0x1012"
  "in_function table_function 0x1013" "in_function table_function 0x1014"
  "\<not> in_function table_function 0x2000"
  by (simp_all add: in_function_def table_sel)

lemma table_run: "disassemble 10 stub_zydis table_function 0 = Some table_result"
  by (simp add: run_defs table_defs fuel_simps)

text \<open>C3 on the sample with the branch: the one label added is \<^verbatim>\<open>0x1004\<close>.\<close>

theorem pass1_labels_in_range_witness:
  "pass1_loop 10 stub_zydis branch_function branch_l0 = Some (branch_labelled, branch_l1)
   \<and> m_labels branch_function 0x1004 = None
   \<and> m_labels branch_labelled 0x1004 = Some ''label_1004''
   \<and> m_startAddress branch_function \<le> 0x1004 \<and> 0x1004 \<le> m_endAddress branch_function"
  using pass1_labels_in_range [OF branch_pass1] branch_pass1
  by (simp add: branch_defs)

text \<open>C10 on the same sample.\<close>

theorem pass2_keeps_labels_witness:
  "pass2_loop 10 stub_zydis branch_labelled branch_l2 = Some (branch_result, branch_l1)
   \<and> m_labels branch_result = m_labels branch_labelled
   \<and> m_labels branch_result 0x1004 = Some ''label_1004''"
  using pass2_keeps_labels [OF branch_pass2] branch_pass2
  by (simp add: branch_defs)







text \<open>C8, amended, on the same sample: the second run appends the five lines once more.\<close>

theorem disassemble_rerun_witness:
  "disassemble 10 stub_zydis branch_function 0 = Some branch_result
   \<and> (\<exists>func2. disassemble 10 stub_zydis branch_result 0 = Some func2
         \<and> m_dissassembly func2 = m_dissassembly branch_result @ m_dissassembly branch_result
         \<and> m_labels func2 = m_labels branch_result)
   \<and> m_dissassembly branch_result \<noteq> []"
  using disassemble_rerun [OF branch_run] branch_run
  by (simp add: branch_defs)

lemma branch_rerun: "disassemble 10 stub_zydis branch_result 0 = Some branch_twice"
  by (simp add: run_defs branch_defs fuel_simps)

text \<open>
  C8, as stated, fails: after the first run the text of the sample is five lines, after
  the second run it is ten.
\<close>

theorem disassemble_twice_text_counterexample:
  "disassemble 10 stub_zydis branch_function 0 = Some branch_result
   \<and> disassemble 10 stub_zydis branch_result 0 = Some branch_twice
   \<and> m_dissassembly branch_result
        = ''    jz label_1004\<newline>    ret\<newline>    ret\<newline>label_1004:\<newline>    ret\<newline>''
   \<and> m_dissassembly branch_twice
        = ''    jz label_1004\<newline>    ret\<newline>    ret\<newline>label_1004:\<newline>    ret\<newline>    jz label_1004\<newline>    ret\<newline>    ret\<newline>label_1004:\<newline>    ret\<newline>''
   \<and> m_dissassembly branch_twice \<noteq> m_dissassembly branch_result"
  using branch_run branch_rerun
  by (simp add: branch_result_def branch_twice_def)

text \<open>C2, amended, on the sample with three distinct table entries.\<close>

theorem jump_table_scenario_witness:
  "pass1_detect 10 table_jmp table_function table_l
     = Some (table_function\<lparr>m_labels := table_labels\<rparr>, advance table_l 12)
   \<and> card (dom table_labels - dom (m_labels table_function)) = 4
   \<and> pass2_detect 10 table_jmp
        (table_function\<lparr>m_labels := table_labels, m_dissassembly := ''    jmp eax\<newline>''\<rparr>) table_l
      = Some (table_result, advance table_l 12)
   \<and> disassemble 10 stub_zydis table_function 0 = Some table_result"
proof -
  have h1: "info_mnemonic table_jmp = ZYDIS_MNEMONIC_JMP"
    by (simp add: table_jmp_def stub_insn_def)
  have h2: "next_int_at table_function (offset table_l) = 0x1012"
    and h4: "next_int_at table_function (offset table_l + 4) = 0x1013"
    and h6: "next_int_at table_function (offset table_l + 8) = 0x1014"
    and h8: "\<not> in_function table_function (next_int_at table_function (offset table_l + 12))"
    and h9: "in_function table_function (runtime_address table_l)"
    by (simp_all add: table_l_def table_words table_in_function)
  have h10: "distinct [runtime_address table_l, 0x1012, 0x1013, 0x1014]"
    by (simp add: table_l_def)
  have h11: "{runtime_address table_l, 0x1012, 0x1013, 0x1014} \<inter> dom (m_labels table_function) = {}"
    by (simp add: table_sel)
  have h12: "(4::nat) \<le> 10" by simp
  have h13: "table_labels = (m_labels table_function)(runtime_address table_l \<mapsto> label_name (runtime_address table_l),
                       0x1012 \<mapsto> label_name 0x1012, 0x1013 \<mapsto> label_name 0x1013, 0x1014 \<mapsto> label_name 0x1014)"
    by (simp add: table_labels_def table_sel table_l_def label_name_def to_hex.simps hex_digit_def)
  note t = jump_table_scenario [OF h1 h2 table_in_function(2) h4 table_in_function(3) h6
      table_in_function(4) h8 h9 h10 h11 h12 h13]
  have le: "table_labels \<subseteq>\<^sub>m table_labels" by simp
  from t have c1: "pass1_detect 10 table_jmp table_function table_l
     = Some (table_function\<lparr>m_labels := table_labels\<rparr>, advance table_l 12)"
    and c3: "card (dom table_labels - dom (m_labels table_function)) = 4"
    by blast+
  from t le have "pass2_detect 10 table_jmp
        (table_function\<lparr>m_labels := table_labels, m_dissassembly := ''    jmp eax\<newline>''\<rparr>) table_l
      = Some (table_function\<lparr>m_labels := table_labels,
                         m_dissassembly := ''    jmp eax\<newline>'' @ render_all
                           [LabelLine (label_name (runtime_address table_l)), IntLine (label_name 0x1012),
                            IntLine (label_name 0x1013), IntLine (label_name 0x1014)]\<rparr>,
                       advance table_l 12)"
    by blast
  also have "table_function\<lparr>m_labels := table_labels,
                         m_dissassembly := ''    jmp eax\<newline>'' @ render_all
                           [LabelLine (label_name (runtime_address table_l)), IntLine (label_name 0x1012),
                            IntLine (label_name 0x1013), IntLine (label_name 0x1014)]\<rparr> = table_result"
    by (simp add: table_result_def table_l_def label_name_def to_hex.simps hex_digit_def)
  finally have c4: "pass2_detect 10 table_jmp
        (table_function\<lparr>m_labels := table_labels, m_dissassembly := ''    jmp eax\<newline>''\<rparr>) table_l
      = Some (table_result, advance table_l 12)" .
  from c1 c3 c4 table_run show ?thesis by blast
qed

text \<open>
  C2, as stated, fails: in the sample whose first two table entries are both \<^verbatim>\<open>0x1012\<close>,
  pass 1 adds three labels, not four, while pass 2 still emits three \<^verbatim>\<open>.int\<close> lines.
\<close>

theorem jump_table_four_labels_counterexample:
  "next_int_at shared_function 2 = 0x1012 \<and> next_int_at shared_function 6 = 0x1012
   \<and> next_int_at shared_function 10 = 0x1014 \<and> next_int_at shared_function 14 = 0x2000
   \<and> in_function shared_function 0x1012 \<and> in_function shared_function 0x1014
   \<and> \<not> in_function shared_function 0x2000
   \<and> m_labels shared_function 0x1002 = None \<and> m_labels shared_function 0x1012 = None
   \<and> m_labels shared_function 0x1014 = None
   \<and> disassemble 10 stub_zydis shared_function 0 = Some shared_result
   \<and> dom (m_labels shared_result) - dom (m_labels shared_function) = {0x1002, 0x1012, 0x1014}
   \<and> card (dom (m_labels shared_result) - dom (m_labels shared_function)) = 3
   \<and> m_dissassembly shared_result
        = ''    jmp eax\<newline>label_1002:\<newline>    .int label_1012\<newline>    .int label_1012\<newline>    .int label_1014\<newline>''"
proof -
  have w: "next_int_at shared_function 2 = 0x1012" "next_int_at shared_function 6 = 0x1012"
    "next_int_at shared_function 10 = 0x1014" "next_int_at shared_function 14 = 0x2000"
    by (simp_all add: next_int_at_def get_le32_def ptr_add_def shared_sel shared_bytes_def)
  have r: "in_function shared_function 0x1012" "in_function shared_function 0x1014"
    "\<not> in_function shared_function 0x2000"
    by (simp_all add: in_function_def shared_sel)
  have run: "disassemble 10 stub_zydis shared_function 0 = Some shared_result"
    by (simp add: run_defs shared_result_def shared_sel shared_bytes_def fuel_simps)
  have d: "dom (m_labels shared_result) - dom (m_labels shared_function) = {0x1002, 0x1012, 0x1014}"
    by (auto simp add: shared_result_def shared_sel)
  have c: "card (dom (m_labels shared_result) - dom (m_labels shared_function)) = 3"
    unfolding d by simp
  show ?thesis using w r run d c by (simp add: shared_sel) (simp add: shared_result_def)
qed

end
